theory Spec2Isabelle
  imports Main "HOL-Library.Word"
begin

section \<open>Shared vocabulary of the provider adapters\<close>

subsection \<open>Addresses, IP versions and errors\<close>

text \<open>
  Go's \<^verbatim>\<open>net.IP\<close> is a byte slice. The nil slice, which the adapters test for
  (\<^verbatim>\<open>ip != nil\<close>, \<^verbatim>\<open>newIP == nil\<close>), is \<open>None\<close>.
\<close>

type_synonym byte = "8 word"
type_synonym IP = "byte list option"

text \<open>
  Modelled from the spec: the package \<^verbatim>\<open>pkg/publicip/ipversion\<close> that declares
  \<^verbatim>\<open>ipversion.IPVersion\<close> is not among the sources. The spec's Record Target gives
  \<^verbatim>\<open>ipVersion: enum{V4, V6}\<close>; the adapters only ever compare against
  \<^verbatim>\<open>ipversion.IP6\<close>.
\<close>

datatype IPVersion = IP4 | IP6

text \<open>
  Modelled from the spec: the package \<^verbatim>\<open>internal/settings/errors\<close> is not among the
  sources. These are the sentinel errors that the two adapters name; following the spec's
  error taxonomy (a closed set of sentinel failure kinds, compared by identity), each is a
  distinct value.
\<close>

datatype sentinel =
    ErrIPv6NotSupported
  | ErrMalformedPassword
  | ErrEmptyToken
  | ErrBadHTTPStatus
  | ErrUnmarshalResponse
  | ErrUnsuccessfulResponse
  | ErrIPReceivedMalformed
  | ErrIPReceivedMismatch
  | ErrNotFound
  | ErrDomainIDNotFound
  | ErrGetRecordID
  | ErrRequestEncode

text \<open>
  An error value is a sentinel, an error produced outside the repository (by the
  standard library or by the injected HTTP client, kept with its message), or the
  result of \<^verbatim>\<open>fmt.Errorf\<close>, kept symbolically as the format string and its
  arguments exactly as the source writes them.
\<close>

datatype error =
    Sentinel sentinel
  | External string
  | Errorf string "arg list"
and arg =
    ArgStr string
  | ArgInt int
  | ArgErr error
  | ArgIP IP

subsection \<open>HTTP requests, responses and the injected client\<close>

text \<open>
  \<^verbatim>\<open>url.Values\<close> and \<^verbatim>\<open>http.Header\<close> are both \<^verbatim>\<open>map[string][]string\<close>;
  \<^verbatim>\<open>Set\<close> replaces whatever the key held by the single new value.
\<close>

type_synonym Values = "string \<rightharpoonup> string list"

definition Values_Set :: "Values \<Rightarrow> string \<Rightarrow> string \<Rightarrow> Values" where
  "Values_Set values key v = values(key \<mapsto> [v])"

text \<open>
  \<^verbatim>\<open>url.URL\<close>. The query is kept as the \<^verbatim>\<open>url.Values\<close> it was encoded from, so
  that the parameters of a request stay readable.
\<close>

record url =
  Scheme :: string
  Host :: string
  Path :: string
  RawQuery :: Values

record 'c request =
  Ctx :: 'c
  Method :: string
  URL :: url
  Header :: Values
  Body :: "string option"

record response =
  StatusCode :: int
  Body :: string

text \<open>
  The world an adapter runs in: the vendor's own state, which the injected client reads
  and changes, and the list of requests handed to the client so far.
\<close>

record ('c, 's) world =
  vendor :: 's
  calls :: "'c request list"

type_synonym ('c, 's) client = "'c request \<Rightarrow> 's \<Rightarrow> (error + response) \<times> 's"

text \<open>\<^verbatim>\<open>client.Do(request)\<close>: one round trip, recorded in the world.\<close>

definition Do ::
  "('c, 's) client \<Rightarrow> 'c request \<Rightarrow> ('c, 's) world \<Rightarrow> (error + response) \<times> ('c, 's) world" where
  "Do client request w =
     (case client request (vendor w) of
        (r, s') \<Rightarrow> (r, \<lparr>vendor = s', calls = calls w @ [request]\<rparr>))"

subsection \<open>Decoded shapes\<close>

text \<open>The anonymous structs that the adapters decode into or encode from.\<close>

record namecheap_extraSettings =
  Password :: string
  UseProviderIP :: bool

record digitalocean_extraSettings =
  Token :: string

record parsedXML_Errors =
  Error :: string

record parsedXML =
  Errors :: parsedXML_Errors
  IP :: string

record domainRecord =
  ID :: int

record result =
  DomainRecords :: "domainRecord list"

record requestData =
  Type :: string
  Name :: string
  Data :: string

record responseData_DomainRecord =
  Data :: string

record responseData =
  DomainRecord :: responseData_DomainRecord

subsection \<open>What lies outside the sources\<close>

text \<open>
  The Go standard library and the repository's helper packages
  (\<^verbatim>\<open>utils\<close>, \<^verbatim>\<open>headers\<close>) are not among the sources. Every function of theirs that
  the adapters call is a field of this record, so each theorem below holds whatever these
  functions compute.

  The four \<^verbatim>\<open>headers\<close> fields act on the header map only.
\<close>

record 'c extern =
  json_Unmarshal_namecheap :: "string \<Rightarrow> error + namecheap_extraSettings"
  json_Unmarshal_digitalocean :: "string \<Rightarrow> error + digitalocean_extraSettings"
  NewRequest_error :: "'c \<Rightarrow> string \<Rightarrow> url \<Rightarrow> string option \<Rightarrow> error option"
  xml_Decode :: "string \<Rightarrow> error + parsedXML"
  json_Decode_result :: "string \<Rightarrow> error + result"
  json_Decode_responseData :: "string \<Rightarrow> error + responseData"
  json_Encode :: "requestData \<Rightarrow> error + string"
  net_ParseIP :: "string \<Rightarrow> IP"
  IP_Equal :: "IP \<Rightarrow> IP \<Rightarrow> bool"
  IP_String :: "IP \<Rightarrow> string"
  IP_To4 :: "IP \<Rightarrow> IP"
  fmt_Sprintf :: "string \<Rightarrow> arg list \<Rightarrow> string"
  utils_BodyToSingleLine :: "string \<Rightarrow> string"
  utils_BuildDomainName :: "string \<Rightarrow> string \<Rightarrow> string"
  headers_UserAgent :: "Values \<Rightarrow> Values"
  headers_ContentType :: "Values \<Rightarrow> string \<Rightarrow> Values"
  headers_Accept :: "Values \<Rightarrow> string \<Rightarrow> Values"
  headers_AuthBearer :: "Values \<Rightarrow> string \<Rightarrow> Values"

text \<open>
  \<^verbatim>\<open>http.NewRequestWithContext(ctx, method, u.String(), body)\<close>: when it does not
  fail, the request holds the context, the method, the URL and the body it was given,
  and no header yet.
\<close>

definition NewRequestWithContext ::
  "'c extern \<Rightarrow> 'c \<Rightarrow> string \<Rightarrow> url \<Rightarrow> string option \<Rightarrow> error + 'c request" where
  "NewRequestWithContext env ctx method u body =
     (case NewRequest_error env ctx method u body of
        Some err \<Rightarrow> Inl err
      | None \<Rightarrow> Inr \<lparr>Ctx = ctx, Method = method, URL = u, Header = Map.empty,
                      request.Body = body\<rparr>)"

text \<open>
  Modelled from the spec: the package \<^verbatim>\<open>internal/settings/headers\<close> is not among the
  sources. The spec describes its functions as decorating an outbound request with
  standard headers (user agent, accept, content-type, bearer auth); they change the
  header map of the request and nothing else.
\<close>

definition SetUserAgent :: "'c extern \<Rightarrow> 'c request \<Rightarrow> 'c request" where
  "SetUserAgent env request = request\<lparr>Header := headers_UserAgent env (Header request)\<rparr>"

definition SetContentType :: "'c extern \<Rightarrow> 'c request \<Rightarrow> string \<Rightarrow> 'c request" where
  "SetContentType env request contentType =
     request\<lparr>Header := headers_ContentType env (Header request) contentType\<rparr>"

definition SetAccept :: "'c extern \<Rightarrow> 'c request \<Rightarrow> string \<Rightarrow> 'c request" where
  "SetAccept env request accept =
     request\<lparr>Header := headers_Accept env (Header request) accept\<rparr>"

definition SetAuthBearer :: "'c extern \<Rightarrow> 'c request \<Rightarrow> string \<Rightarrow> 'c request" where
  "SetAuthBearer env request token' =
     request\<lparr>Header := headers_AuthBearer env (Header request) token'\<rparr>"

text \<open>
  Modelled from the spec: \<^verbatim>\<open>constants.A\<close> and \<^verbatim>\<open>constants.AAAA\<close> of the package
  \<^verbatim>\<open>internal/settings/constants\<close>, not among the sources: the DNS record types
  \<^verbatim>\<open>A\<close> and \<^verbatim>\<open>AAAA\<close> of the spec.
\<close>

definition constants_A :: string where
  "constants_A = ''A''"

definition constants_AAAA :: string where
  "constants_AAAA = ''AAAA''"

section \<open>The simple adapter: Namecheap\<close>

text \<open>
  \<^verbatim>\<open>regex.Matcher\<close>, as far as this adapter uses it. The package \<^verbatim>\<open>internal/regex\<close> is
  not among the sources, so the check of the password is whatever function the matcher
  passed to \<^verbatim>\<open>New\<close> holds.
\<close>

record Matcher =
  NamecheapPassword :: "string \<Rightarrow> bool"

record namecheap =
  domain :: string
  host :: string
  ipVersion :: IPVersion
  password :: string
  useProviderIP :: bool
  matcher :: Matcher

definition namecheap_isValid :: "namecheap \<Rightarrow> error option" where
  "namecheap_isValid n =
     (if \<not> NamecheapPassword (matcher n) (password n)
      then Some (Sentinel ErrMalformedPassword)
      else None)"

definition namecheap_New ::
  "'c extern \<Rightarrow> string \<Rightarrow> string \<Rightarrow> string \<Rightarrow> IPVersion \<Rightarrow> Matcher \<Rightarrow> error + namecheap" where
  "namecheap_New env data domain' host' ipVersion' matcher' =
     (if ipVersion' = IP6 then Inl (Sentinel ErrIPv6NotSupported)
      else case json_Unmarshal_namecheap env data of
        Inl err \<Rightarrow> Inl err
      | Inr extraSettings \<Rightarrow>
          (let n = \<lparr>namecheap.domain = domain',
                    namecheap.host = host',
                    namecheap.ipVersion = ipVersion',
                    password = Password extraSettings,
                    useProviderIP = UseProviderIP extraSettings,
                    matcher = matcher'\<rparr>
           in case namecheap_isValid n of
                Some err \<Rightarrow> Inl err
              | None \<Rightarrow> Inr n))"

definition namecheap_Domain :: "namecheap \<Rightarrow> string" where
  "namecheap_Domain n = namecheap.domain n"

definition namecheap_Host :: "namecheap \<Rightarrow> string" where
  "namecheap_Host n = namecheap.host n"

definition namecheap_IPVersion :: "namecheap \<Rightarrow> IPVersion" where
  "namecheap_IPVersion n = namecheap.ipVersion n"

definition namecheap_setHeaders :: "'c extern \<Rightarrow> namecheap \<Rightarrow> 'c request \<Rightarrow> 'c request" where
  "namecheap_setHeaders env n request =
     SetAccept env (SetUserAgent env request) ''application/xml''"

definition namecheap_Update ::
  "'c extern \<Rightarrow> namecheap \<Rightarrow> 'c \<Rightarrow> ('c, 's) client \<Rightarrow> IP \<Rightarrow> ('c, 's) world
     \<Rightarrow> (error + IP) \<times> ('c, 's) world" where
  "namecheap_Update env n ctx client ip w =
     (let u = \<lparr>Scheme = ''https'',
                Host = ''dynamicdns.park-your-domain.com'',
                Path = ''/update'',
                RawQuery = Map.empty\<rparr>;
          values = Map.empty;
          values = Values_Set values ''host'' (namecheap.host n);
          values = Values_Set values ''domain'' (namecheap.domain n);
          values = Values_Set values ''password'' (password n);
          values = (if \<not> useProviderIP n
                    then Values_Set values ''ip'' (IP_String env ip)
                    else values);
          u = u\<lparr>RawQuery := values\<rparr>
      in case NewRequestWithContext env ctx ''GET'' u None of
           Inl err \<Rightarrow> (Inl err, w)
         | Inr request \<Rightarrow>
             (let request = namecheap_setHeaders env n request
              in case Do client request w of
                   (Inl err, w') \<Rightarrow> (Inl err, w')
                 | (Inr response, w') \<Rightarrow>
                     if StatusCode response \<noteq> 200
                     then (Inl (Errorf ''%w: %d: %s''
                                  [ArgErr (Sentinel ErrBadHTTPStatus),
                                   ArgInt (StatusCode response),
                                   ArgStr (utils_BodyToSingleLine env (response.Body response))]),
                           w')
                     else
                       (case xml_Decode env (response.Body response) of
                          Inl err \<Rightarrow>
                            (Inl (Errorf ''%w: %s''
                                    [ArgErr (Sentinel ErrUnmarshalResponse), ArgErr err]),
                             w')
                        | Inr parsedXML \<Rightarrow>
                            if Error (Errors parsedXML) \<noteq> ''''
                            then (Inl (Errorf ''%w: %s''
                                         [ArgErr (Sentinel ErrUnsuccessfulResponse),
                                          ArgStr (Error (Errors parsedXML))]),
                                  w')
                            else
                              (let newIP = net_ParseIP env (IP parsedXML)
                               in if newIP = None
                                  then (Inl (Errorf ''%w: %s''
                                               [ArgErr (Sentinel ErrIPReceivedMalformed),
                                                ArgStr (IP parsedXML)]),
                                        w')
                                  else if ip \<noteq> None \<and> \<not> IP_Equal env ip newIP
                                  then (Inl (Errorf ''%w: %s''
                                               [ArgErr (Sentinel ErrIPReceivedMismatch),
                                                ArgStr (IP_String env newIP)]),
                                        w')
                                  else (Inr newIP, w')))))"

section \<open>The two-step adapter: DigitalOcean\<close>

record digitalOcean =
  domain :: string
  host :: string
  ipVersion :: IPVersion
  token :: string

definition digitalocean_isValid :: "digitalOcean \<Rightarrow> error option" where
  "digitalocean_isValid d =
     (if length (token d) = 0 then Some (Sentinel ErrEmptyToken) else None)"

definition digitalocean_New ::
  "'c extern \<Rightarrow> string \<Rightarrow> string \<Rightarrow> string \<Rightarrow> IPVersion \<Rightarrow> error + digitalOcean" where
  "digitalocean_New env data domain' host' ipVersion' =
     (case json_Unmarshal_digitalocean env data of
        Inl err \<Rightarrow> Inl err
      | Inr extraSettings \<Rightarrow>
          (let d = \<lparr>digitalOcean.domain = domain',
                    digitalOcean.host = host',
                    digitalOcean.ipVersion = ipVersion',
                    token = Token extraSettings\<rparr>
           in case digitalocean_isValid d of
                Some err \<Rightarrow> Inl err
              | None \<Rightarrow> Inr d))"

definition digitalocean_Domain :: "digitalOcean \<Rightarrow> string" where
  "digitalocean_Domain d = digitalOcean.domain d"

definition digitalocean_Host :: "digitalOcean \<Rightarrow> string" where
  "digitalocean_Host d = digitalOcean.host d"

definition digitalocean_IPVersion :: "digitalOcean \<Rightarrow> IPVersion" where
  "digitalocean_IPVersion d = digitalOcean.ipVersion d"

definition digitalocean_BuildDomainName :: "'c extern \<Rightarrow> digitalOcean \<Rightarrow> string" where
  "digitalocean_BuildDomainName env d =
     utils_BuildDomainName env (digitalOcean.host d) (digitalOcean.domain d)"

definition digitalocean_setHeaders ::
  "'c extern \<Rightarrow> digitalOcean \<Rightarrow> 'c request \<Rightarrow> 'c request" where
  "digitalocean_setHeaders env d request =
     SetAuthBearer env
       (SetAccept env
          (SetContentType env (SetUserAgent env request) ''application/json'')
          ''application/json'')
       (token d)"

definition digitalocean_getRecordID ::
  "'c extern \<Rightarrow> digitalOcean \<Rightarrow> 'c \<Rightarrow> string \<Rightarrow> ('c, 's) client \<Rightarrow> ('c, 's) world
     \<Rightarrow> (error + int) \<times> ('c, 's) world" where
  "digitalocean_getRecordID env d ctx recordType client w =
     (let values = Map.empty;
          values = Values_Set values ''name'' (digitalocean_BuildDomainName env d);
          values = Values_Set values ''type'' recordType;
          u = \<lparr>Scheme = ''https'',
                Host = ''api.digitalocean.com'',
                Path = ''/v2/domains/'' @ digitalOcean.domain d @ ''/records'',
                RawQuery = values\<rparr>
      in case NewRequestWithContext env ctx ''GET'' u None of
           Inl err \<Rightarrow> (Inl err, w)
         | Inr request \<Rightarrow>
             (let request = digitalocean_setHeaders env d request
              in case Do client request w of
                   (Inl err, w') \<Rightarrow> (Inl err, w')
                 | (Inr response, w') \<Rightarrow>
                     if StatusCode response \<noteq> 200
                     then (Inl (Errorf ''%w: %d: %s''
                                  [ArgErr (Sentinel ErrBadHTTPStatus),
                                   ArgInt (StatusCode response),
                                   ArgStr (utils_BodyToSingleLine env (response.Body response))]),
                           w')
                     else
                       (case json_Decode_result env (response.Body response) of
                          Inl err \<Rightarrow>
                            (Inl (Errorf ''%w: %s''
                                    [ArgErr (Sentinel ErrUnmarshalResponse), ArgErr err]),
                             w')
                        | Inr result \<Rightarrow>
                            if length (DomainRecords result) = 0
                            then (Inl (Sentinel ErrNotFound), w')
                            else if ID (DomainRecords result ! 0) = 0
                            then (Inl (Sentinel ErrDomainIDNotFound), w')
                            else (Inr (ID (DomainRecords result ! 0)), w'))))"

definition digitalocean_Update ::
  "'c extern \<Rightarrow> digitalOcean \<Rightarrow> 'c \<Rightarrow> ('c, 's) client \<Rightarrow> IP \<Rightarrow> ('c, 's) world
     \<Rightarrow> (error + IP) \<times> ('c, 's) world" where
  "digitalocean_Update env d ctx client ip w =
     (let recordType = (if IP_To4 env ip = None then constants_AAAA else constants_A)
      in case digitalocean_getRecordID env d ctx recordType client w of
           (Inl err, w1) \<Rightarrow>
             (Inl (Errorf ''%s: %w'' [ArgErr (Sentinel ErrGetRecordID), ArgErr err]), w1)
         | (Inr recordID, w1) \<Rightarrow>
             (let u = \<lparr>Scheme = ''https'',
                        Host = ''api.digitalocean.com'',
                        Path = fmt_Sprintf env ''/v2/domains/%s/records/%d''
                                 [ArgStr (digitalOcean.domain d), ArgInt recordID],
                        RawQuery = Map.empty\<rparr>;
                  requestData = \<lparr>Type = recordType,
                                  Name = digitalOcean.host d,
                                  requestData.Data = IP_String env ip\<rparr>
              in case json_Encode env requestData of
                   Inl err \<Rightarrow>
                     (Inl (Errorf ''%w: %s'' [ArgErr (Sentinel ErrRequestEncode), ArgErr err]),
                      w1)
                 | Inr buffer \<Rightarrow>
                     (case NewRequestWithContext env ctx ''PUT'' u (Some buffer) of
                        Inl err \<Rightarrow> (Inl err, w1)
                      | Inr request \<Rightarrow>
                          (let request = digitalocean_setHeaders env d request
                           in case Do client request w1 of
                                (Inl err, w2) \<Rightarrow> (Inl err, w2)
                              | (Inr response, w2) \<Rightarrow>
                                  if StatusCode response \<noteq> 200
                                  then (Inl (Errorf ''%w: %d: %s''
                                               [ArgErr (Sentinel ErrBadHTTPStatus),
                                                ArgInt (StatusCode response),
                                                ArgStr (utils_BodyToSingleLine env
                                                          (response.Body response))]),
                                        w2)
                                  else
                                    (case json_Decode_responseData env (response.Body response) of
                                       Inl err \<Rightarrow>
                                         (Inl (Errorf ''%w: %s''
                                                 [ArgErr (Sentinel ErrUnmarshalResponse),
                                                  ArgErr err]),
                                          w2)
                                     | Inr responseData \<Rightarrow>
                                         (let newIP = net_ParseIP env
                                                        (Data (DomainRecord responseData))
                                          in if newIP = None
                                             then (Inl (Errorf
                                                          ''IP address received %q is malformed''
                                                          [ArgStr (Data (DomainRecord responseData))]),
                                                   w2)
                                             else if \<not> IP_Equal env newIP ip
                                             then (Inl (Errorf
                                                          ''updated IP address %s is not the IP address %s sent for update''
                                                          [ArgIP newIP, ArgIP ip]),
                                                   w2)
                                             else (Inr newIP, w2)))))))"

section \<open>Each exchange, read as request, round trip and verdict\<close>

text \<open>
  The request that \<^verbatim>\<open>(*namecheap).Update\<close> builds (source lines 102 to 120) and what it
  makes of a response (lines 128 to 154), each as a term of its own. They are equal to the
  corresponding parts of \<open>namecheap_Update\<close> by \<open>namecheap_Update_eq\<close> below, and
  only serve to keep the proofs small.
\<close>

definition namecheap_request :: "'c extern \<Rightarrow> namecheap \<Rightarrow> 'c \<Rightarrow> IP \<Rightarrow> 'c request" where
  "namecheap_request env n ctx ip =
     namecheap_setHeaders env n
       \<lparr>Ctx = ctx, Method = ''GET'',
        URL = \<lparr>Scheme = ''https'',
               Host = ''dynamicdns.park-your-domain.com'',
               Path = ''/update'',
               RawQuery =
                 (let values = [''host'' \<mapsto> [namecheap.host n],
                                ''domain'' \<mapsto> [namecheap.domain n],
                                ''password'' \<mapsto> [password n]]
                  in if \<not> useProviderIP n
                     then values(''ip'' \<mapsto> [IP_String env ip])
                     else values)\<rparr>,
        Header = Map.empty, request.Body = None\<rparr>"

definition namecheap_verdict :: "'c extern \<Rightarrow> IP \<Rightarrow> response \<Rightarrow> error + IP" where
  "namecheap_verdict env ip response =
     (if StatusCode response \<noteq> 200
      then Inl (Errorf ''%w: %d: %s''
                  [ArgErr (Sentinel ErrBadHTTPStatus), ArgInt (StatusCode response),
                   ArgStr (utils_BodyToSingleLine env (response.Body response))])
      else case xml_Decode env (response.Body response) of
             Inl err \<Rightarrow> Inl (Errorf ''%w: %s'' [ArgErr (Sentinel ErrUnmarshalResponse), ArgErr err])
           | Inr parsedXML \<Rightarrow>
               if Error (Errors parsedXML) \<noteq> ''''
               then Inl (Errorf ''%w: %s'' [ArgErr (Sentinel ErrUnsuccessfulResponse),
                                            ArgStr (Error (Errors parsedXML))])
               else if net_ParseIP env (IP parsedXML) = None
               then Inl (Errorf ''%w: %s'' [ArgErr (Sentinel ErrIPReceivedMalformed),
                                            ArgStr (IP parsedXML)])
               else if ip \<noteq> None \<and> \<not> IP_Equal env ip (net_ParseIP env (IP parsedXML))
               then Inl (Errorf ''%w: %s'' [ArgErr (Sentinel ErrIPReceivedMismatch),
                                            ArgStr (IP_String env (net_ParseIP env (IP parsedXML)))])
               else Inr (net_ParseIP env (IP parsedXML)))"

text \<open>
  The same for \<^verbatim>\<open>(*digitalOcean).getRecordID\<close> (lines 95 to 109, and 117 to 138) and for
  the mutation of \<^verbatim>\<open>(*digitalOcean).Update\<close> (lines 152 to 177, and 185 to 206).
\<close>

definition digitalocean_lookup_request ::
  "'c extern \<Rightarrow> digitalOcean \<Rightarrow> 'c \<Rightarrow> string \<Rightarrow> 'c request" where
  "digitalocean_lookup_request env d ctx recordType =
     digitalocean_setHeaders env d
       \<lparr>Ctx = ctx, Method = ''GET'',
        URL = \<lparr>Scheme = ''https'',
               Host = ''api.digitalocean.com'',
               Path = ''/v2/domains/'' @ digitalOcean.domain d @ ''/records'',
               RawQuery = [''name'' \<mapsto> [digitalocean_BuildDomainName env d],
                           ''type'' \<mapsto> [recordType]]\<rparr>,
        Header = Map.empty, request.Body = None\<rparr>"

definition digitalocean_lookup_verdict :: "'c extern \<Rightarrow> response \<Rightarrow> error + int" where
  "digitalocean_lookup_verdict env response =
     (if StatusCode response \<noteq> 200
      then Inl (Errorf ''%w: %d: %s''
                  [ArgErr (Sentinel ErrBadHTTPStatus), ArgInt (StatusCode response),
                   ArgStr (utils_BodyToSingleLine env (response.Body response))])
      else case json_Decode_result env (response.Body response) of
             Inl err \<Rightarrow> Inl (Errorf ''%w: %s'' [ArgErr (Sentinel ErrUnmarshalResponse), ArgErr err])
           | Inr result \<Rightarrow>
               if length (DomainRecords result) = 0 then Inl (Sentinel ErrNotFound)
               else if ID (DomainRecords result ! 0) = 0 then Inl (Sentinel ErrDomainIDNotFound)
               else Inr (ID (DomainRecords result ! 0)))"

definition digitalocean_recordType :: "'c extern \<Rightarrow> IP \<Rightarrow> string" where
  "digitalocean_recordType env ip =
     (if IP_To4 env ip = None then constants_AAAA else constants_A)"

definition digitalocean_requestData :: "'c extern \<Rightarrow> digitalOcean \<Rightarrow> IP \<Rightarrow> requestData" where
  "digitalocean_requestData env d ip =
     \<lparr>Type = digitalocean_recordType env ip,
      Name = digitalOcean.host d,
      requestData.Data = IP_String env ip\<rparr>"

definition digitalocean_mutation_request ::
  "'c extern \<Rightarrow> digitalOcean \<Rightarrow> 'c \<Rightarrow> int \<Rightarrow> string \<Rightarrow> 'c request" where
  "digitalocean_mutation_request env d ctx recordID buffer =
     digitalocean_setHeaders env d
       \<lparr>Ctx = ctx, Method = ''PUT'',
        URL = \<lparr>Scheme = ''https'',
               Host = ''api.digitalocean.com'',
               Path = fmt_Sprintf env ''/v2/domains/%s/records/%d''
                        [ArgStr (digitalOcean.domain d), ArgInt recordID],
               RawQuery = Map.empty\<rparr>,
        Header = Map.empty, request.Body = Some buffer\<rparr>"

definition digitalocean_mutation_verdict :: "'c extern \<Rightarrow> IP \<Rightarrow> response \<Rightarrow> error + IP" where
  "digitalocean_mutation_verdict env ip response =
     (if StatusCode response \<noteq> 200
      then Inl (Errorf ''%w: %d: %s''
                  [ArgErr (Sentinel ErrBadHTTPStatus), ArgInt (StatusCode response),
                   ArgStr (utils_BodyToSingleLine env (response.Body response))])
      else case json_Decode_responseData env (response.Body response) of
             Inl err \<Rightarrow> Inl (Errorf ''%w: %s'' [ArgErr (Sentinel ErrUnmarshalResponse), ArgErr err])
           | Inr responseData \<Rightarrow>
               if net_ParseIP env (Data (DomainRecord responseData)) = None
               then Inl (Errorf ''IP address received %q is malformed''
                           [ArgStr (Data (DomainRecord responseData))])
               else if \<not> IP_Equal env (net_ParseIP env (Data (DomainRecord responseData))) ip
               then Inl (Errorf ''updated IP address %s is not the IP address %s sent for update''
                           [ArgIP (net_ParseIP env (Data (DomainRecord responseData))), ArgIP ip])
               else Inr (net_ParseIP env (Data (DomainRecord responseData))))"

section \<open>A concrete environment for the scenarios of the spec\<close>

text \<open>
  Stand-ins for what lies outside the sources, enough to run the adapters on the concrete
  scenarios of the spec (a vendor stub that answers with a fixed response). Addresses are
  compared and narrowed as \<^verbatim>\<open>net.IP.Equal\<close> and \<^verbatim>\<open>net.IP.To4\<close> do; parsing, printing
  and the decoders are tables over the texts that the scenarios use. No theorem about the
  adapters depends on them: they only instantiate the general statements.
\<close>

definition v4InV6Prefix :: "byte list" where
  "v4InV6Prefix = [0, 0, 0, 0, 0, 0, 0, 0, 0, 0, 0xff, 0xff]"

definition stub_IPv4 :: "byte \<Rightarrow> byte \<Rightarrow> byte \<Rightarrow> byte \<Rightarrow> IP" where
  "stub_IPv4 a b c e = Some (v4InV6Prefix @ [a, b, c, e])"

definition stub_bytes :: "IP \<Rightarrow> byte list" where
  "stub_bytes ip = (case ip of None \<Rightarrow> [] | Some bs \<Rightarrow> bs)"

definition stub_Equal :: "IP \<Rightarrow> IP \<Rightarrow> bool" where
  "stub_Equal ip x =
     (if length (stub_bytes ip) = length (stub_bytes x) then stub_bytes ip = stub_bytes x
      else if length (stub_bytes ip) = 4 \<and> length (stub_bytes x) = 16
      then take 12 (stub_bytes x) = v4InV6Prefix \<and> stub_bytes ip = drop 12 (stub_bytes x)
      else if length (stub_bytes ip) = 16 \<and> length (stub_bytes x) = 4
      then take 12 (stub_bytes ip) = v4InV6Prefix \<and> drop 12 (stub_bytes ip) = stub_bytes x
      else False)"

definition stub_To4 :: "IP \<Rightarrow> IP" where
  "stub_To4 ip =
     (if length (stub_bytes ip) = 4 then ip
      else if length (stub_bytes ip) = 16 \<and> take 12 (stub_bytes ip) = v4InV6Prefix
      then Some (drop 12 (stub_bytes ip))
      else None)"

definition stub_ParseIP :: "string \<Rightarrow> IP" where
  "stub_ParseIP s =
     (if s = ''203.0.113.5'' then stub_IPv4 203 0 113 5
      else if s = ''198.51.100.9'' then stub_IPv4 198 51 100 9
      else if s = ''198.51.100.1'' then stub_IPv4 198 51 100 1
      else None)"

definition stub_String :: "IP \<Rightarrow> string" where
  "stub_String ip =
     (if ip = None then ''<nil>''
      else if stub_Equal ip (stub_IPv4 203 0 113 5) then ''203.0.113.5''
      else if stub_Equal ip (stub_IPv4 198 51 100 9) then ''198.51.100.9''
      else if stub_Equal ip (stub_IPv4 198 51 100 1) then ''198.51.100.1''
      else ''?'')"

definition stub_password :: string where
  "stub_password = ''Aa1-aaaaaaaaaaaaaaaa''"

definition config_password :: string where
  \<open>config_password = ''{"password":"Aa1-aaaaaaaaaaaaaaaa"}''\<close>

definition config_password_infer :: string where
  \<open>config_password_infer = ''{"password":"Aa1-aaaaaaaaaaaaaaaa","provider_ip":true}''\<close>

definition config_password_short :: string where
  \<open>config_password_short = ''{"password":"abc"}''\<close>

definition config_token :: string where
  \<open>config_token = ''{"token":"tok123"}''\<close>

definition config_token_empty :: string where
  \<open>config_token_empty = ''{"token":""}''\<close>

definition config_truncated :: string where
  \<open>config_truncated = ''{"pass''\<close>

definition body_records_42 :: string where
  \<open>body_records_42 = ''{"domain_records":[{"id":42}]}''\<close>

definition body_records_none :: string where
  \<open>body_records_none = ''{"domain_records":[]}''\<close>

definition body_records_no_id :: string where
  \<open>body_records_no_id = ''{"domain_records":[{}]}''\<close>

definition body_record_9 :: string where
  \<open>body_record_9 = ''{"domain_record":{"data":"198.51.100.9"}}''\<close>

definition body_record_1 :: string where
  \<open>body_record_1 = ''{"domain_record":{"data":"198.51.100.1"}}''\<close>

definition body_ip_5 :: string where
  "body_ip_5 = ''<interface-response><IP>203.0.113.5</IP></interface-response>''"

definition body_ip_1 :: string where
  "body_ip_1 = ''<interface-response><IP>198.51.100.1</IP></interface-response>''"

definition body_ip_5_error :: string where
  "body_ip_5_error =
     ''<interface-response><errors><errors.Err1>Domain name not found</errors.Err1></errors><IP>203.0.113.5</IP></interface-response>''"

definition stub_Matcher :: Matcher where
  "stub_Matcher = \<lparr>NamecheapPassword = (\<lambda>s. 16 \<le> length s)\<rparr>"

definition stub_extern :: "unit extern" where
  "stub_extern =
     \<lparr>json_Unmarshal_namecheap = (\<lambda>data.
        if data = config_password
        then Inr \<lparr>Password = stub_password, UseProviderIP = False\<rparr>
        else if data = config_password_infer
        then Inr \<lparr>Password = stub_password, UseProviderIP = True\<rparr>
        else if data = config_password_short
        then Inr \<lparr>Password = ''abc'', UseProviderIP = False\<rparr>
        else Inl (External ''unexpected end of JSON input'')),
      json_Unmarshal_digitalocean = (\<lambda>data.
        if data = config_token then Inr \<lparr>Token = ''tok123''\<rparr>
        else if data = config_token_empty then Inr \<lparr>Token = ''''\<rparr>
        else Inl (External ''unexpected end of JSON input'')),
      NewRequest_error = (\<lambda>ctx method u body. None),
      xml_Decode = (\<lambda>body.
        if body = body_ip_5
        then Inr \<lparr>Errors = \<lparr>Error = ''''\<rparr>, IP = ''203.0.113.5''\<rparr>
        else if body = body_ip_1
        then Inr \<lparr>Errors = \<lparr>Error = ''''\<rparr>, IP = ''198.51.100.1''\<rparr>
        else if body = body_ip_5_error
        then Inr \<lparr>Errors = \<lparr>Error = ''Domain name not found''\<rparr>, IP = ''203.0.113.5''\<rparr>
        else Inl (External ''EOF'')),
      json_Decode_result = (\<lambda>body.
        if body = body_records_42 then Inr \<lparr>DomainRecords = [\<lparr>ID = 42\<rparr>]\<rparr>
        else if body = body_records_none then Inr \<lparr>DomainRecords = []\<rparr>
        else if body = body_records_no_id then Inr \<lparr>DomainRecords = [\<lparr>ID = 0\<rparr>]\<rparr>
        else Inl (External ''EOF'')),
      json_Decode_responseData = (\<lambda>body.
        if body = body_record_9
        then Inr \<lparr>DomainRecord = \<lparr>responseData_DomainRecord.Data = ''198.51.100.9''\<rparr>\<rparr>
        else if body = body_record_1
        then Inr \<lparr>DomainRecord = \<lparr>responseData_DomainRecord.Data = ''198.51.100.1''\<rparr>\<rparr>
        else Inl (External ''EOF'')),
      json_Encode = (\<lambda>requestData.
        Inr (''type='' @ Type requestData @ '' name='' @ Name requestData
               @ '' data='' @ requestData.Data requestData)),
      net_ParseIP = stub_ParseIP,
      IP_Equal = stub_Equal,
      IP_String = stub_String,
      IP_To4 = stub_To4,
      fmt_Sprintf = (\<lambda>format args.
        if args = [ArgStr ''example.org'', ArgInt 42]
        then ''/v2/domains/example.org/records/42''
        else format),
      utils_BodyToSingleLine = (\<lambda>body. body),
      utils_BuildDomainName = (\<lambda>host' domain'.
        if host' = ''@'' then domain' else host' @ ''.'' @ domain'),
      headers_UserAgent = (\<lambda>header. header(''User-Agent'' \<mapsto> [''DDNS-Updater''])),
      headers_ContentType = (\<lambda>header contentType. header(''Content-Type'' \<mapsto> [contentType])),
      headers_Accept = (\<lambda>header accept. header(''Accept'' \<mapsto> [accept])),
      headers_AuthBearer = (\<lambda>header token'.
        header(''Authorization'' \<mapsto> [''Bearer '' @ token']))\<rparr>"

definition stub_namecheap :: "bool \<Rightarrow> namecheap" where
  "stub_namecheap infer =
     \<lparr>namecheap.domain = ''example.com'',
      namecheap.host = ''www'',
      namecheap.ipVersion = IP4,
      password = stub_password,
      useProviderIP = infer,
      matcher = stub_Matcher\<rparr>"

definition stub_digitalOcean :: digitalOcean where
  "stub_digitalOcean =
     \<lparr>digitalOcean.domain = ''example.org'',
      digitalOcean.host = ''api'',
      digitalOcean.ipVersion = IP4,
      token = ''tok123''\<rparr>"

text \<open>
  A vendor stub: it answers every \<^verbatim>\<open>GET\<close> with one fixed outcome and every other request
  with another, and counts the requests it has served.
\<close>

definition stub_vendor :: "error + response \<Rightarrow> error + response \<Rightarrow> (unit, nat) client" where
  "stub_vendor on_get on_put =
     (\<lambda>request served. (if Method request = ''GET'' then on_get else on_put, Suc served))"

definition ok :: "string \<Rightarrow> error + response" where
  "ok body = Inr \<lparr>StatusCode = 200, response.Body = body\<rparr>"

definition start :: "(unit, nat) world" where
  "start = \<lparr>vendor = 0, calls = []\<rparr>"

section \<open>Unfolding the adapters\<close>

lemma Do_eq:
  "Do client request w =
     (fst (client request (vendor w)),
      \<lparr>vendor = snd (client request (vendor w)), calls = calls w @ [request]\<rparr>)"
  by (simp add: Do_def split: prod.splits)

lemmas req_defs = NewRequestWithContext_def namecheap_setHeaders_def digitalocean_setHeaders_def
  SetUserAgent_def SetAccept_def SetContentType_def SetAuthBearer_def Values_Set_def

lemma namecheap_Update_eq:
  "namecheap_Update env n ctx client ip w =
     (case NewRequest_error env ctx ''GET'' (URL (namecheap_request env n ctx ip)) None of
        Some err \<Rightarrow> (Inl err, w)
      | None \<Rightarrow>
          (case fst (client (namecheap_request env n ctx ip) (vendor w)) of
             Inl err \<Rightarrow> Inl err
           | Inr response \<Rightarrow> namecheap_verdict env ip response,
           \<lparr>vendor = snd (client (namecheap_request env n ctx ip) (vendor w)),
            calls = calls w @ [namecheap_request env n ctx ip]\<rparr>))"
proof (cases "useProviderIP n")
  case True
  then show ?thesis
    by (simp add: namecheap_Update_def namecheap_request_def namecheap_verdict_def req_defs Do_eq
        Let_def split: option.splits sum.splits)
next
  case False
  then show ?thesis
    by (simp add: namecheap_Update_def namecheap_request_def namecheap_verdict_def req_defs Do_eq
        Let_def split: option.splits sum.splits)
qed

lemma namecheap_Update_run:
  assumes "namecheap_Update env n ctx client ip w = (res, w')"
      and "calls w' = calls w @ [request]"
      and "client request (vendor w) = (Inr response, s')"
  shows "res = namecheap_verdict env ip response"
    and "w' = \<lparr>vendor = s', calls = calls w @ [request]\<rparr>"
    and "request = namecheap_request env n ctx ip"
  using assms unfolding namecheap_Update_eq
  by (auto split: option.splits sum.splits)

lemma namecheap_Update_Inr:
  assumes "namecheap_Update env n ctx client ip w = (Inr x, w')"
  shows "\<exists>response. namecheap_verdict env ip response = Inr x"
  using assms unfolding namecheap_Update_eq
  by (auto split: option.splits sum.splits)

lemma digitalocean_getRecordID_eq:
  "digitalocean_getRecordID env d ctx recordType client w =
     (case NewRequest_error env ctx ''GET''
             (URL (digitalocean_lookup_request env d ctx recordType)) None of
        Some err \<Rightarrow> (Inl err, w)
      | None \<Rightarrow>
          (case fst (client (digitalocean_lookup_request env d ctx recordType) (vendor w)) of
             Inl err \<Rightarrow> Inl err
           | Inr response \<Rightarrow> digitalocean_lookup_verdict env response,
           \<lparr>vendor = snd (client (digitalocean_lookup_request env d ctx recordType) (vendor w)),
            calls = calls w @ [digitalocean_lookup_request env d ctx recordType]\<rparr>))"
  by (simp add: digitalocean_getRecordID_def digitalocean_lookup_request_def
      digitalocean_lookup_verdict_def req_defs Do_eq Let_def split: option.splits sum.splits)

lemma digitalocean_getRecordID_run:
  assumes "digitalocean_getRecordID env d ctx recordType client w = (res, w')"
      and "calls w' = calls w @ [request]"
      and "client request (vendor w) = (Inr response, s')"
  shows "res = digitalocean_lookup_verdict env response"
    and "w' = \<lparr>vendor = s', calls = calls w @ [request]\<rparr>"
    and "request = digitalocean_lookup_request env d ctx recordType"
  using assms unfolding digitalocean_getRecordID_eq
  by (auto split: option.splits sum.splits)

lemma digitalocean_getRecordID_calls:
  assumes "digitalocean_getRecordID env d ctx recordType client w = (res, w')"
  shows "calls w' = calls w \<or>
         calls w' = calls w @ [digitalocean_lookup_request env d ctx recordType]"
  using assms unfolding digitalocean_getRecordID_eq
  by (auto split: option.splits sum.splits)

lemma digitalocean_getRecordID_Inr_calls:
  assumes "digitalocean_getRecordID env d ctx recordType client w = (Inr recordID, w')"
  shows "calls w' = calls w @ [digitalocean_lookup_request env d ctx recordType]"
  using assms unfolding digitalocean_getRecordID_eq
  by (auto split: option.splits sum.splits)

lemma digitalocean_Update_Inl:
  assumes "digitalocean_getRecordID env d ctx (digitalocean_recordType env ip) client w
           = (Inl err, w1)"
  shows "digitalocean_Update env d ctx client ip w =
           (Inl (Errorf ''%s: %w'' [ArgErr (Sentinel ErrGetRecordID), ArgErr err]), w1)"
  using assms
  by (cases "IP_To4 env ip")
     (simp_all add: digitalocean_Update_def digitalocean_recordType_def Let_def)

lemma digitalocean_Update_Inr:
  assumes "digitalocean_getRecordID env d ctx (digitalocean_recordType env ip) client w
           = (Inr recordID, w1)"
  shows "digitalocean_Update env d ctx client ip w =
     (case json_Encode env (digitalocean_requestData env d ip) of
        Inl err \<Rightarrow> (Inl (Errorf ''%w: %s'' [ArgErr (Sentinel ErrRequestEncode), ArgErr err]), w1)
      | Inr buffer \<Rightarrow>
          (case NewRequest_error env ctx ''PUT''
                  (URL (digitalocean_mutation_request env d ctx recordID buffer)) (Some buffer) of
             Some err \<Rightarrow> (Inl err, w1)
           | None \<Rightarrow>
               (case fst (client (digitalocean_mutation_request env d ctx recordID buffer)
                            (vendor w1)) of
                  Inl err \<Rightarrow> Inl err
                | Inr response \<Rightarrow> digitalocean_mutation_verdict env ip response,
                \<lparr>vendor = snd (client (digitalocean_mutation_request env d ctx recordID buffer)
                                  (vendor w1)),
                 calls = calls w1 @ [digitalocean_mutation_request env d ctx recordID buffer]\<rparr>)))"
  using assms
  by (cases "IP_To4 env ip")
     (simp_all add: digitalocean_Update_def digitalocean_recordType_def
        digitalocean_requestData_def digitalocean_mutation_request_def
        digitalocean_mutation_verdict_def req_defs Do_eq Let_def
        split: option.splits sum.splits)

lemma digitalocean_Update_run:
  assumes "digitalocean_getRecordID env d ctx (digitalocean_recordType env ip) client w
           = (Inr recordID, w1)"
      and "digitalocean_Update env d ctx client ip w = (res, w2)"
      and "calls w2 = calls w1 @ [request]"
      and "client request (vendor w1) = (Inr response, s2)"
  shows "res = digitalocean_mutation_verdict env ip response"
    and "w2 = \<lparr>vendor = s2, calls = calls w1 @ [request]\<rparr>"
    and "\<exists>buffer. json_Encode env (digitalocean_requestData env d ip) = Inr buffer \<and>
           request = digitalocean_mutation_request env d ctx recordID buffer"
  using assms(2-) unfolding digitalocean_Update_Inr [OF assms(1)]
  by (auto split: option.splits sum.splits)

lemma digitalocean_Update_success:
  assumes "digitalocean_Update env d ctx client ip w = (Inr x, w2)"
  shows "\<exists>response. digitalocean_mutation_verdict env ip response = Inr x"
proof (cases "digitalocean_getRecordID env d ctx (digitalocean_recordType env ip) client w")
  case (Pair r w1)
  show ?thesis
  proof (cases r)
    case (Inl err)
    with Pair assms show ?thesis by (simp add: digitalocean_Update_Inl)
  next
    case (Inr recordID)
    with Pair have ok: "digitalocean_getRecordID env d ctx (digitalocean_recordType env ip) client w
           = (Inr recordID, w1)" by simp
    from assms show ?thesis unfolding digitalocean_Update_Inr [OF ok]
      by (auto split: option.splits sum.splits)
  qed
qed

section \<open>Construction\<close>

text \<open>
  Claim C8. For every domain, host and IP version, and every configuration blob that
  \<^verbatim>\<open>New\<close> accepts, the accessors \<^verbatim>\<open>Domain()\<close>, \<^verbatim>\<open>Host()\<close> and \<^verbatim>\<open>IPVersion()\<close> of the
  adapter that \<^verbatim>\<open>New\<close> returns give back exactly the domain, the host and the IP version
  that were passed in; this holds for the Namecheap and for the DigitalOcean adapter.
\<close>

theorem accessors_round_trip:
  "(namecheap_New env data domain' host' ipVersion' matcher' = Inr n \<longrightarrow>
      namecheap_Domain n = domain' \<and> namecheap_Host n = host'
      \<and> namecheap_IPVersion n = ipVersion')
   \<and> (digitalocean_New env data_do domain_do host_do ipVersion_do = Inr d \<longrightarrow>
      digitalocean_Domain d = domain_do \<and> digitalocean_Host d = host_do
      \<and> digitalocean_IPVersion d = ipVersion_do)"
  by (auto simp: namecheap_New_def digitalocean_New_def namecheap_Domain_def namecheap_Host_def
      namecheap_IPVersion_def digitalocean_Domain_def digitalocean_Host_def
      digitalocean_IPVersion_def Let_def split: if_splits sum.splits option.splits)

lemma stub_namecheap_New:
  "namecheap_New stub_extern config_password ''example.com'' ''www'' IP4 stub_Matcher
     = Inr (stub_namecheap False)"
  by (simp add: namecheap_New_def namecheap_isValid_def stub_extern_def stub_namecheap_def
      stub_Matcher_def stub_password_def Let_def)

lemma stub_digitalocean_New:
  "digitalocean_New stub_extern config_token ''example.org'' ''api'' IP4 = Inr stub_digitalOcean"
  by (simp add: digitalocean_New_def digitalocean_isValid_def stub_extern_def
      stub_digitalOcean_def Let_def)

theorem accessors_round_trip_witness:
  "namecheap_Domain (stub_namecheap False) = ''example.com''
   \<and> namecheap_Host (stub_namecheap False) = ''www''
   \<and> namecheap_IPVersion (stub_namecheap False) = IP4
   \<and> digitalocean_Domain stub_digitalOcean = ''example.org''
   \<and> digitalocean_Host stub_digitalOcean = ''api''
   \<and> digitalocean_IPVersion stub_digitalOcean = IP4"
  using accessors_round_trip [of stub_extern config_password "''example.com''" "''www''" IP4
      stub_Matcher "stub_namecheap False" config_token "''example.org''" "''api''" IP4
      stub_digitalOcean]
    stub_namecheap_New stub_digitalocean_New
  by simp

text \<open>
  Claim C3. \<^verbatim>\<open>New\<close> fails, with the error of the failing check, whenever the requested IP
  version is IPv6 (Namecheap only), the configuration blob cannot be parsed, or the secret
  fails the vendor's check (the matcher rejects the Namecheap password; the DigitalOcean
  token is empty). \<^verbatim>\<open>New\<close> takes no HTTP client and no world, so it performs no request;
  and an adapter value, the only thing \<^verbatim>\<open>Update\<close> can run on, only comes out of \<^verbatim>\<open>New\<close>
  with all checks passed.
\<close>

theorem New_fails_before_any_request:
  "(ipVersion' = IP6 \<longrightarrow>
      namecheap_New env data domain' host' ipVersion' matcher'
        = Inl (Sentinel ErrIPv6NotSupported))
   \<and> (ipVersion' \<noteq> IP6 \<and> json_Unmarshal_namecheap env data = Inl err \<longrightarrow>
      namecheap_New env data domain' host' ipVersion' matcher' = Inl err)
   \<and> (ipVersion' \<noteq> IP6 \<and> json_Unmarshal_namecheap env data = Inr extraSettings
        \<and> \<not> NamecheapPassword matcher' (Password extraSettings) \<longrightarrow>
      namecheap_New env data domain' host' ipVersion' matcher'
        = Inl (Sentinel ErrMalformedPassword))
   \<and> (namecheap_New env data domain' host' ipVersion' matcher' = Inr n \<longrightarrow>
      ipVersion' \<noteq> IP6
      \<and> (\<exists>s. json_Unmarshal_namecheap env data = Inr s \<and> password n = Password s)
      \<and> NamecheapPassword (matcher n) (password n) \<and> namecheap_isValid n = None)
   \<and> (json_Unmarshal_digitalocean env data_do = Inl err_do \<longrightarrow>
      digitalocean_New env data_do domain_do host_do ipVersion_do = Inl err_do)
   \<and> (json_Unmarshal_digitalocean env data_do = Inr extraSettings_do
        \<and> Token extraSettings_do = '''' \<longrightarrow>
      digitalocean_New env data_do domain_do host_do ipVersion_do = Inl (Sentinel ErrEmptyToken))
   \<and> (digitalocean_New env data_do domain_do host_do ipVersion_do = Inr d \<longrightarrow>
      (\<exists>s. json_Unmarshal_digitalocean env data_do = Inr s \<and> token d = Token s)
      \<and> token d \<noteq> '''' \<and> digitalocean_isValid d = None)"
proof -
  have nc: "(ipVersion' = IP6 \<longrightarrow>
      namecheap_New env data domain' host' ipVersion' matcher'
        = Inl (Sentinel ErrIPv6NotSupported))
   \<and> (ipVersion' \<noteq> IP6 \<and> json_Unmarshal_namecheap env data = Inl err \<longrightarrow>
      namecheap_New env data domain' host' ipVersion' matcher' = Inl err)
   \<and> (ipVersion' \<noteq> IP6 \<and> json_Unmarshal_namecheap env data = Inr extraSettings
        \<and> \<not> NamecheapPassword matcher' (Password extraSettings) \<longrightarrow>
      namecheap_New env data domain' host' ipVersion' matcher'
        = Inl (Sentinel ErrMalformedPassword))
   \<and> (namecheap_New env data domain' host' ipVersion' matcher' = Inr n \<longrightarrow>
      ipVersion' \<noteq> IP6
      \<and> (\<exists>s. json_Unmarshal_namecheap env data = Inr s \<and> password n = Password s)
      \<and> NamecheapPassword (matcher n) (password n) \<and> namecheap_isValid n = None)"
    by (auto simp: namecheap_New_def namecheap_isValid_def Let_def
        split: if_splits sum.splits option.splits)
  have do: "(json_Unmarshal_digitalocean env data_do = Inl err_do \<longrightarrow>
      digitalocean_New env data_do domain_do host_do ipVersion_do = Inl err_do)
   \<and> (json_Unmarshal_digitalocean env data_do = Inr extraSettings_do
        \<and> Token extraSettings_do = '''' \<longrightarrow>
      digitalocean_New env data_do domain_do host_do ipVersion_do = Inl (Sentinel ErrEmptyToken))
   \<and> (digitalocean_New env data_do domain_do host_do ipVersion_do = Inr d \<longrightarrow>
      (\<exists>s. json_Unmarshal_digitalocean env data_do = Inr s \<and> token d = Token s)
      \<and> token d \<noteq> '''' \<and> digitalocean_isValid d = None)"
    by (auto simp: digitalocean_New_def digitalocean_isValid_def Let_def
        split: if_splits sum.splits option.splits)
  from nc do show ?thesis by blast
qed

lemma stub_configs:
  "json_Unmarshal_namecheap stub_extern config_truncated
     = Inl (External ''unexpected end of JSON input'')"
  "json_Unmarshal_namecheap stub_extern config_password_short
     = Inr \<lparr>Password = ''abc'', UseProviderIP = False\<rparr>"
  "json_Unmarshal_namecheap stub_extern config_password
     = Inr \<lparr>Password = stub_password, UseProviderIP = False\<rparr>"
  "json_Unmarshal_digitalocean stub_extern config_truncated
     = Inl (External ''unexpected end of JSON input'')"
  "json_Unmarshal_digitalocean stub_extern config_token_empty = Inr \<lparr>Token = ''''\<rparr>"
  "json_Unmarshal_digitalocean stub_extern config_token = Inr \<lparr>Token = ''tok123''\<rparr>"
  by (simp_all add: stub_extern_def config_truncated_def config_password_short_def
      config_password_def config_password_infer_def config_token_def config_token_empty_def)

theorem New_fails_before_any_request_witness:
  "namecheap_New stub_extern config_password ''example.com'' ''www'' IP6 stub_Matcher
     = Inl (Sentinel ErrIPv6NotSupported)
   \<and> namecheap_New stub_extern config_truncated ''example.com'' ''www'' IP4 stub_Matcher
     = Inl (External ''unexpected end of JSON input'')
   \<and> namecheap_New stub_extern config_password_short ''example.com'' ''www'' IP4 stub_Matcher
     = Inl (Sentinel ErrMalformedPassword)
   \<and> NamecheapPassword (matcher (stub_namecheap False)) (password (stub_namecheap False))
   \<and> digitalocean_New stub_extern config_truncated ''example.org'' ''api'' IP4
     = Inl (External ''unexpected end of JSON input'')
   \<and> digitalocean_New stub_extern config_token_empty ''example.org'' ''api'' IP4
     = Inl (Sentinel ErrEmptyToken)
   \<and> token stub_digitalOcean \<noteq> ''''"
proof -
  have short:
    "\<not> NamecheapPassword stub_Matcher (Password \<lparr>Password = ''abc'', UseProviderIP = False\<rparr>)"
    by (simp add: stub_Matcher_def)
  have a: "namecheap_New stub_extern config_password ''example.com'' ''www'' IP6 stub_Matcher
     = Inl (Sentinel ErrIPv6NotSupported)"
    using New_fails_before_any_request [where ipVersion' = IP6 and env = stub_extern]
    by simp
  have b: "namecheap_New stub_extern config_truncated ''example.com'' ''www'' IP4 stub_Matcher
     = Inl (External ''unexpected end of JSON input'')"
    using New_fails_before_any_request [where ipVersion' = IP4 and env = stub_extern
        and data = config_truncated] stub_configs(1)
    by simp
  have c: "namecheap_New stub_extern config_password_short ''example.com'' ''www'' IP4
       stub_Matcher = Inl (Sentinel ErrMalformedPassword)"
    using New_fails_before_any_request [where ipVersion' = IP4 and env = stub_extern
        and data = config_password_short and matcher' = stub_Matcher
        and extraSettings = "\<lparr>Password = ''abc'', UseProviderIP = False\<rparr>"]
      stub_configs(2) short
    by simp
  have d: "NamecheapPassword (matcher (stub_namecheap False)) (password (stub_namecheap False))"
    using New_fails_before_any_request [where ipVersion' = IP4 and env = stub_extern
        and data = config_password and matcher' = stub_Matcher and domain' = "''example.com''"
        and host' = "''www''" and n = "stub_namecheap False"] stub_namecheap_New
    by blast
  have e: "digitalocean_New stub_extern config_truncated ''example.org'' ''api'' IP4
     = Inl (External ''unexpected end of JSON input'')"
    using New_fails_before_any_request [where env = stub_extern and data_do = config_truncated]
      stub_configs(4)
    by simp
  have f: "digitalocean_New stub_extern config_token_empty ''example.org'' ''api'' IP4
     = Inl (Sentinel ErrEmptyToken)"
    using New_fails_before_any_request [where env = stub_extern and data_do = config_token_empty
        and extraSettings_do = "\<lparr>Token = ''''\<rparr>"] stub_configs(5)
    by simp
  have g: "token stub_digitalOcean \<noteq> ''''"
    using New_fails_before_any_request [where env = stub_extern and data_do = config_token
        and domain_do = "''example.org''" and host_do = "''api''" and ipVersion_do = IP4
        and d = stub_digitalOcean] stub_digitalocean_New
    by blast
  from a b c d e f g show ?thesis by blast
qed

section \<open>Running the adapters against the vendor stub\<close>

lemma namecheap_request_Method [simp]:
  "Method (namecheap_request env n ctx ip) = ''GET''"
  by (simp add: namecheap_request_def req_defs)

lemma digitalocean_lookup_request_Method [simp]:
  "Method (digitalocean_lookup_request env d ctx recordType) = ''GET''"
  by (simp add: digitalocean_lookup_request_def req_defs)

lemma digitalocean_mutation_request_Method [simp]:
  "Method (digitalocean_mutation_request env d ctx recordID buffer) = ''PUT''"
  by (simp add: digitalocean_mutation_request_def req_defs)

lemma stub_NewRequest_error [simp]:
  "NewRequest_error stub_extern ctx method u body = None"
  by (simp add: stub_extern_def)

lemma stub_namecheap_Update:
  "namecheap_Update stub_extern n ctx (stub_vendor on_get on_put) ip w =
     (case on_get of Inl err \<Rightarrow> Inl err
      | Inr response \<Rightarrow> namecheap_verdict stub_extern ip response,
      \<lparr>vendor = Suc (vendor w), calls = calls w @ [namecheap_request stub_extern n ctx ip]\<rparr>)"
  by (simp add: namecheap_Update_eq stub_vendor_def)

lemma stub_getRecordID:
  "digitalocean_getRecordID stub_extern d ctx recordType (stub_vendor on_get on_put) w =
     (case on_get of Inl err \<Rightarrow> Inl err
      | Inr response \<Rightarrow> digitalocean_lookup_verdict stub_extern response,
      \<lparr>vendor = Suc (vendor w),
       calls = calls w @ [digitalocean_lookup_request stub_extern d ctx recordType]\<rparr>)"
  by (simp add: digitalocean_getRecordID_eq stub_vendor_def)

lemma stub_lookup_verdicts:
  "digitalocean_lookup_verdict stub_extern \<lparr>StatusCode = 200, response.Body = body_records_none\<rparr>
     = Inl (Sentinel ErrNotFound)"
  "digitalocean_lookup_verdict stub_extern \<lparr>StatusCode = 200, response.Body = body_records_no_id\<rparr>
     = Inl (Sentinel ErrDomainIDNotFound)"
  "digitalocean_lookup_verdict stub_extern \<lparr>StatusCode = 200, response.Body = body_records_42\<rparr>
     = Inr 42"
  by (simp_all add: digitalocean_lookup_verdict_def stub_extern_def body_records_none_def
      body_records_no_id_def body_records_42_def)

lemma stub_decode_records:
  "json_Decode_result stub_extern body_records_none = Inr \<lparr>DomainRecords = []\<rparr>"
  "json_Decode_result stub_extern body_records_no_id = Inr \<lparr>DomainRecords = [\<lparr>ID = 0\<rparr>]\<rparr>"
  "json_Decode_result stub_extern body_records_42 = Inr \<lparr>DomainRecords = [\<lparr>ID = 42\<rparr>]\<rparr>"
  by (simp_all add: stub_extern_def body_records_none_def body_records_no_id_def
      body_records_42_def)

lemma stub_addresses:
  "stub_To4 (stub_IPv4 a b c e) = Some [a, b, c, e]"
  "stub_IPv4 a b c e \<noteq> None"
  "stub_Equal (stub_IPv4 a b c e) (stub_IPv4 a' b' c' e')
     = (a = a' \<and> b = b' \<and> c = c' \<and> e = e')"
  "stub_ParseIP ''203.0.113.5'' = stub_IPv4 203 0 113 5"
  "stub_ParseIP ''198.51.100.9'' = stub_IPv4 198 51 100 9"
  "stub_ParseIP ''198.51.100.1'' = stub_IPv4 198 51 100 1"
  by (simp_all add: stub_To4_def stub_IPv4_def stub_bytes_def stub_Equal_def stub_ParseIP_def
      v4InV6Prefix_def)

lemma stub_recordType:
  "digitalocean_recordType stub_extern (stub_IPv4 a b c e) = ''A''"
  by (simp add: digitalocean_recordType_def stub_extern_def stub_addresses constants_A_def)

section \<open>The lookup of the two-step adapter\<close>

text \<open>
  Claim C5. When the lookup of the two-step adapter has received a response with status 200
  whose body decodes, \<^verbatim>\<open>getRecordID\<close> returns the error \<^verbatim>\<open>ErrNotFound\<close> exactly when the
  result set is empty, the distinct error \<^verbatim>\<open>ErrDomainIDNotFound\<close> exactly when the first
  row carries the identifier zero, and the identifier of the first row, with no error,
  exactly when that identifier is not zero.
\<close>

theorem getRecordID_outcomes:
  assumes "digitalocean_getRecordID env d ctx recordType client w = (res, w')"
      and "calls w' = calls w @ [request]"
      and "client request (vendor w) = (Inr response, s')"
      and "StatusCode response = 200"
      and "json_Decode_result env (response.Body response) = Inr result"
  shows "(res = Inl (Sentinel ErrNotFound)) = (DomainRecords result = [])
       \<and> (res = Inl (Sentinel ErrDomainIDNotFound))
           = (\<exists>r rs. DomainRecords result = r # rs \<and> ID r = 0)
       \<and> (\<forall>i. (res = Inr i) = (\<exists>r rs. DomainRecords result = r # rs \<and> ID r = i \<and> i \<noteq> 0))"
proof -
  have "res = digitalocean_lookup_verdict env response"
    by (rule digitalocean_getRecordID_run(1) [OF assms(1-3)])
  with assms(4,5) show ?thesis
    by (cases "DomainRecords result") (auto simp: digitalocean_lookup_verdict_def)
qed

theorem getRecordID_outcomes_witness:
  "fst (digitalocean_getRecordID stub_extern stub_digitalOcean () ''A''
          (stub_vendor (ok body_records_none) (ok body_record_9)) start)
     = Inl (Sentinel ErrNotFound)
   \<and> fst (digitalocean_getRecordID stub_extern stub_digitalOcean () ''A''
          (stub_vendor (ok body_records_no_id) (ok body_record_9)) start)
     = Inl (Sentinel ErrDomainIDNotFound)
   \<and> fst (digitalocean_getRecordID stub_extern stub_digitalOcean () ''A''
          (stub_vendor (ok body_records_42) (ok body_record_9)) start)
     = Inr 42"
proof -
  have run: "digitalocean_getRecordID stub_extern stub_digitalOcean () ''A''
               (stub_vendor (ok body) (ok body_record_9)) start
             = (fst (digitalocean_getRecordID stub_extern stub_digitalOcean () ''A''
                      (stub_vendor (ok body) (ok body_record_9)) start),
                \<lparr>vendor = Suc 0,
                 calls = [digitalocean_lookup_request stub_extern stub_digitalOcean () ''A'']\<rparr>)"
    for body
    by (simp add: stub_getRecordID start_def)
  have sent: "calls \<lparr>vendor = Suc 0,
                 calls = [digitalocean_lookup_request stub_extern stub_digitalOcean () ''A'']\<rparr>
        = calls start @ [digitalocean_lookup_request stub_extern stub_digitalOcean () ''A'']"
    by (simp add: start_def)
  have answered: "stub_vendor (ok body) (ok body_record_9)
        (digitalocean_lookup_request stub_extern stub_digitalOcean () ''A'') (vendor start)
      = (Inr \<lparr>StatusCode = 200, response.Body = body\<rparr>, Suc 0)" for body
    by (simp add: stub_vendor_def ok_def start_def)
  have status: "StatusCode \<lparr>StatusCode = 200, response.Body = body\<rparr> = 200" for body :: string
    by simp
  have decoded:
    "json_Decode_result stub_extern
       (response.Body \<lparr>StatusCode = 200, response.Body = body_records_none\<rparr>)
     = Inr \<lparr>DomainRecords = []\<rparr>"
    "json_Decode_result stub_extern
       (response.Body \<lparr>StatusCode = 200, response.Body = body_records_no_id\<rparr>)
     = Inr \<lparr>DomainRecords = [\<lparr>ID = 0\<rparr>]\<rparr>"
    "json_Decode_result stub_extern
       (response.Body \<lparr>StatusCode = 200, response.Body = body_records_42\<rparr>)
     = Inr \<lparr>DomainRecords = [\<lparr>ID = 42\<rparr>]\<rparr>"
    by (simp_all add: stub_decode_records)
  note none = getRecordID_outcomes [OF run sent answered status decoded(1)]
  note no_id = getRecordID_outcomes [OF run sent answered status decoded(2)]
  note found = getRecordID_outcomes [OF run sent answered status decoded(3)]
  from none no_id found show ?thesis by simp
qed

text \<open>
  Claim C4. Whenever \<^verbatim>\<open>getRecordID\<close> returns an error (the "not found" of an empty result
  set included), \<^verbatim>\<open>Update\<close> of the two-step adapter returns that error wrapped with
  \<^verbatim>\<open>ErrGetRecordID\<close> and leaves the world as the lookup left it: at most the one
  \<^verbatim>\<open>GET\<close> request of the lookup has been handed to the client, and no mutation request.
\<close>

theorem lookup_failure_stops_update:
  assumes "digitalocean_getRecordID env d ctx
             (if IP_To4 env ip = None then constants_AAAA else constants_A) client w
           = (Inl err, w1)"
  shows "digitalocean_Update env d ctx client ip w
           = (Inl (Errorf ''%s: %w'' [ArgErr (Sentinel ErrGetRecordID), ArgErr err]), w1)
       \<and> (calls w1 = calls w \<or>
          (\<exists>request. calls w1 = calls w @ [request] \<and> Method request = ''GET''
             \<and> Path (URL request) = ''/v2/domains/'' @ digitalOcean.domain d @ ''/records''))"
proof -
  from assms have lookup:
    "digitalocean_getRecordID env d ctx (digitalocean_recordType env ip) client w = (Inl err, w1)"
    by (simp add: digitalocean_recordType_def)
  have path: "Path (URL (digitalocean_lookup_request env d ctx recordType))
                = ''/v2/domains/'' @ digitalOcean.domain d @ ''/records''" for recordType
    by (simp add: digitalocean_lookup_request_def req_defs)
  from digitalocean_getRecordID_calls [OF lookup]
  have "calls w1 = calls w \<or>
          (\<exists>request. calls w1 = calls w @ [request] \<and> Method request = ''GET''
             \<and> Path (URL request) = ''/v2/domains/'' @ digitalOcean.domain d @ ''/records'')"
    using path by auto
  with digitalocean_Update_Inl [OF lookup] show ?thesis by simp
qed

theorem lookup_failure_stops_update_witness:
  "digitalocean_Update stub_extern stub_digitalOcean ()
       (stub_vendor (ok body_records_none) (ok body_record_9)) (stub_IPv4 198 51 100 9) start
     = (Inl (Errorf ''%s: %w'' [ArgErr (Sentinel ErrGetRecordID), ArgErr (Sentinel ErrNotFound)]),
        \<lparr>vendor = Suc 0,
         calls = [digitalocean_lookup_request stub_extern stub_digitalOcean () ''A'']\<rparr>)"
proof -
  have "digitalocean_getRecordID stub_extern stub_digitalOcean ()
          (if IP_To4 stub_extern (stub_IPv4 198 51 100 9) = None
           then constants_AAAA else constants_A)
          (stub_vendor (ok body_records_none) (ok body_record_9)) start
        = (Inl (Sentinel ErrNotFound),
           \<lparr>vendor = Suc 0,
            calls = [digitalocean_lookup_request stub_extern stub_digitalOcean () ''A'']\<rparr>)"
    using stub_recordType [of 198 51 100 9]
    by (simp add: digitalocean_recordType_def stub_getRecordID ok_def stub_lookup_verdicts
        start_def)
  from lookup_failure_stops_update [OF this] show ?thesis by simp
qed

section \<open>The simple adapter: interpreting the response\<close>

lemma stub_xml:
  "xml_Decode stub_extern body_ip_5
     = Inr \<lparr>Errors = \<lparr>Error = ''''\<rparr>, IP = ''203.0.113.5''\<rparr>"
  "xml_Decode stub_extern body_ip_1
     = Inr \<lparr>Errors = \<lparr>Error = ''''\<rparr>, IP = ''198.51.100.1''\<rparr>"
  "xml_Decode stub_extern body_ip_5_error
     = Inr \<lparr>Errors = \<lparr>Error = ''Domain name not found''\<rparr>, IP = ''203.0.113.5''\<rparr>"
  by (simp_all add: stub_extern_def body_ip_5_def body_ip_1_def body_ip_5_error_def)

lemma stub_fields [simp]:
  "net_ParseIP stub_extern = stub_ParseIP"
  "IP_Equal stub_extern = stub_Equal"
  "IP_String stub_extern = stub_String"
  "IP_To4 stub_extern = stub_To4"
  "utils_BodyToSingleLine stub_extern body = body"
  by (simp_all add: stub_extern_def)

lemma stub_String_addresses:
  "stub_String (stub_IPv4 203 0 113 5) = ''203.0.113.5''"
  "stub_String (stub_IPv4 198 51 100 9) = ''198.51.100.9''"
  "stub_String (stub_IPv4 198 51 100 1) = ''198.51.100.1''"
  by (simp_all add: stub_String_def stub_addresses)

lemma stub_namecheap_run:
  "namecheap_Update stub_extern n () (stub_vendor (Inr response) on_put) ip start
     = (fst (namecheap_Update stub_extern n () (stub_vendor (Inr response) on_put) ip start),
        \<lparr>vendor = Suc 0, calls = [namecheap_request stub_extern n () ip]\<rparr>)"
  "calls \<lparr>vendor = Suc 0, calls = [namecheap_request stub_extern n () ip]\<rparr>
     = calls start @ [namecheap_request stub_extern n () ip]"
  "stub_vendor (Inr response) on_put (namecheap_request stub_extern n () ip) (vendor start)
     = (Inr response, Suc 0)"
  by (simp add: stub_namecheap_Update start_def, simp add: start_def,
      simp add: stub_vendor_def start_def)

text \<open>
  Claim C6. In the simple adapter a populated in-band error field wins over apparent
  success: when the response has status 200 and decodes, and its error field is not empty,
  \<^verbatim>\<open>Update\<close> returns the "unsuccessful response" error carrying the vendor's message. No
  address is returned, and the outcome is the same whatever \<^verbatim>\<open>net.ParseIP\<close> would have made
  of the reported IP, which is therefore not consulted.
\<close>

theorem in_band_error_takes_precedence:
  assumes "namecheap_Update env n ctx client ip w = (res, w')"
      and "calls w' = calls w @ [request]"
      and "client request (vendor w) = (Inr response, s')"
      and "StatusCode response = 200"
      and "xml_Decode env (response.Body response) = Inr parsedXML"
      and "Error (Errors parsedXML) \<noteq> ''''"
  shows "res = Inl (Errorf ''%w: %s'' [ArgErr (Sentinel ErrUnsuccessfulResponse),
                                        ArgStr (Error (Errors parsedXML))])
       \<and> namecheap_Update (env\<lparr>net_ParseIP := parse\<rparr>) n ctx client ip w = (res, w')"
proof -
  note run = namecheap_Update_run [OF assms(1-3)]
  have verdict: "namecheap_verdict (env\<lparr>net_ParseIP := p\<rparr>) ip response
      = Inl (Errorf ''%w: %s'' [ArgErr (Sentinel ErrUnsuccessfulResponse),
                                 ArgStr (Error (Errors parsedXML))])" for p
    using assms(4-6) by (simp add: namecheap_verdict_def)
  from verdict [of "net_ParseIP env"] run(1)
  have res: "res = Inl (Errorf ''%w: %s'' [ArgErr (Sentinel ErrUnsuccessfulResponse),
                                           ArgStr (Error (Errors parsedXML))])"
    by simp
  have same_request: "namecheap_request (env\<lparr>net_ParseIP := parse\<rparr>) n ctx ip = request"
    using run(3) by (simp add: namecheap_request_def req_defs Let_def)
  have "namecheap_Update (env\<lparr>net_ParseIP := parse\<rparr>) n ctx client ip w = (res, w')"
    using assms(1,3) run(2,3) same_request res verdict [of parse]
    by (simp add: namecheap_Update_eq split: option.splits)
  with res show ?thesis by simp
qed

theorem in_band_error_takes_precedence_witness:
  "fst (namecheap_Update stub_extern (stub_namecheap False) ()
          (stub_vendor (ok body_ip_5_error) (ok body_ip_5)) (stub_IPv4 203 0 113 5) start)
     = Inl (Errorf ''%w: %s'' [ArgErr (Sentinel ErrUnsuccessfulResponse),
                                ArgStr ''Domain name not found''])"
proof -
  have decoded: "xml_Decode stub_extern
      (response.Body \<lparr>StatusCode = 200, response.Body = body_ip_5_error\<rparr>)
      = Inr \<lparr>Errors = \<lparr>Error = ''Domain name not found''\<rparr>, IP = ''203.0.113.5''\<rparr>"
    by (simp add: stub_xml)
  have "Error (Errors \<lparr>Errors = \<lparr>Error = ''Domain name not found''\<rparr>, IP = ''203.0.113.5''\<rparr>)
          \<noteq> ''''"
    by simp
  from in_band_error_takes_precedence [OF stub_namecheap_run _ decoded this]
  show ?thesis by (simp add: ok_def)
qed

text \<open>
  Claim C9. In the simple adapter a nil current IP skips the comparison of the reported
  with the requested address: whenever the response has status 200, its body decodes, the
  in-band error field is empty and the reported IP parses, \<^verbatim>\<open>Update\<close> succeeds and returns
  the address that the vendor reported, whatever the \<^verbatim>\<open>useProviderIP\<close> flag of the adapter.
\<close>

theorem nil_ip_skips_comparison:
  assumes "namecheap_Update env n ctx client None w = (res, w')"
      and "calls w' = calls w @ [request]"
      and "client request (vendor w) = (Inr response, s')"
      and "StatusCode response = 200"
      and "xml_Decode env (response.Body response) = Inr parsedXML"
      and "Error (Errors parsedXML) = ''''"
      and "net_ParseIP env (IP parsedXML) \<noteq> None"
  shows "res = Inr (net_ParseIP env (IP parsedXML))"
  using namecheap_Update_run(1) [OF assms(1-3)] assms(4-7)
  by (simp add: namecheap_verdict_def)

theorem nil_ip_skips_comparison_witness:
  "fst (namecheap_Update stub_extern (stub_namecheap False) ()
          (stub_vendor (ok body_ip_5) (ok body_ip_5)) None start)
     = Inr (stub_IPv4 203 0 113 5)
   \<and> fst (namecheap_Update stub_extern (stub_namecheap True) ()
          (stub_vendor (ok body_ip_5) (ok body_ip_5)) None start)
     = Inr (stub_IPv4 203 0 113 5)"
proof -
  have decoded: "xml_Decode stub_extern
      (response.Body \<lparr>StatusCode = 200, response.Body = body_ip_5\<rparr>)
      = Inr \<lparr>Errors = \<lparr>Error = ''''\<rparr>, IP = ''203.0.113.5''\<rparr>"
    by (simp add: stub_xml)
  have empty: "Error (Errors \<lparr>Errors = \<lparr>Error = ''''\<rparr>, IP = ''203.0.113.5''\<rparr>) = ''''"
    by simp
  have parsed: "net_ParseIP stub_extern (IP \<lparr>Errors = \<lparr>Error = ''''\<rparr>, IP = ''203.0.113.5''\<rparr>)
      \<noteq> None"
    by (simp add: stub_addresses)
  note off = nil_ip_skips_comparison
      [OF stub_namecheap_run [where n = "stub_namecheap False"] _ decoded empty parsed]
  note on = nil_ip_skips_comparison
      [OF stub_namecheap_run [where n = "stub_namecheap True"] _ decoded empty parsed]
  from off on show ?thesis by (simp add: ok_def stub_addresses)
qed

section \<open>Verification of the reported address\<close>

lemma namecheap_verdict_Inr:
  assumes "namecheap_verdict env ip response = Inr x" and "ip \<noteq> None"
  shows "IP_Equal env ip x"
  using assms
  by (auto simp: namecheap_verdict_def split: if_splits sum.splits)

lemma digitalocean_mutation_verdict_Inr:
  assumes "digitalocean_mutation_verdict env ip response = Inr x"
  shows "IP_Equal env x ip"
  using assms
  by (auto simp: digitalocean_mutation_verdict_def split: if_splits sum.splits)

lemma stub_vendor_GET:
  "Method request = ''GET'' \<Longrightarrow> stub_vendor on_get on_put request served = (on_get, Suc served)"
  by (simp add: stub_vendor_def)

lemma stub_vendor_PUT:
  "Method request = ''PUT'' \<Longrightarrow> stub_vendor on_get on_put request served = (on_put, Suc served)"
  by (simp add: stub_vendor_def)

lemma stub_lookup_42:
  "digitalocean_getRecordID stub_extern stub_digitalOcean ()
       (if IP_To4 stub_extern (stub_IPv4 a b c e) = None then constants_AAAA else constants_A)
       (stub_vendor (ok body_records_42) on_put) start
     = (Inr 42,
        \<lparr>vendor = Suc 0,
         calls = [digitalocean_lookup_request stub_extern stub_digitalOcean () ''A'']\<rparr>)"
  "digitalocean_getRecordID stub_extern stub_digitalOcean () constants_A
       (stub_vendor (ok body_records_42) on_put) start
     = (Inr 42,
        \<lparr>vendor = Suc 0,
         calls = [digitalocean_lookup_request stub_extern stub_digitalOcean () ''A'']\<rparr>)"
  using stub_recordType [of a b c e]
  by (simp_all add: digitalocean_recordType_def stub_getRecordID ok_def stub_lookup_verdicts
      start_def constants_A_def)

lemma stub_digitalocean_Update:
  "digitalocean_Update stub_extern stub_digitalOcean ()
       (stub_vendor (ok body_records_42) on_put) (stub_IPv4 a b c e) start
     = (case on_put of Inl err \<Rightarrow> Inl err
        | Inr response \<Rightarrow>
            digitalocean_mutation_verdict stub_extern (stub_IPv4 a b c e) response,
        \<lparr>vendor = Suc (Suc 0),
         calls = [digitalocean_lookup_request stub_extern stub_digitalOcean () ''A'',
                  digitalocean_mutation_request stub_extern stub_digitalOcean () 42
                    (''type=A name=api data='' @ stub_String (stub_IPv4 a b c e))]\<rparr>)"
proof -
  have rt: "digitalocean_recordType stub_extern (stub_IPv4 a b c e) = ''A''"
    by (rule stub_recordType)
  have lookup: "digitalocean_getRecordID stub_extern stub_digitalOcean ()
       (digitalocean_recordType stub_extern (stub_IPv4 a b c e))
       (stub_vendor (ok body_records_42) on_put) start
     = (Inr 42,
        \<lparr>vendor = Suc 0,
         calls = [digitalocean_lookup_request stub_extern stub_digitalOcean () ''A'']\<rparr>)"
    using stub_lookup_42(1) [of a b c e on_put] by (simp add: digitalocean_recordType_def)
  have encode: "json_Encode stub_extern
        (digitalocean_requestData stub_extern stub_digitalOcean (stub_IPv4 a b c e))
      = Inr (''type=A name=api data='' @ stub_String (stub_IPv4 a b c e))"
    by (simp add: digitalocean_requestData_def rt)
       (simp add: stub_extern_def stub_digitalOcean_def)
  show ?thesis
    unfolding digitalocean_Update_Inr [OF lookup] encode
    by (simp add: stub_vendor_PUT)
qed

lemma stub_decode_record:
  "json_Decode_responseData stub_extern body_record_9
     = Inr \<lparr>DomainRecord = \<lparr>responseData_DomainRecord.Data = ''198.51.100.9''\<rparr>\<rparr>"
  "json_Decode_responseData stub_extern body_record_1
     = Inr \<lparr>DomainRecord = \<lparr>responseData_DomainRecord.Data = ''198.51.100.1''\<rparr>\<rparr>"
  by (simp_all add: stub_extern_def body_record_9_def body_record_1_def)

text \<open>
  Claim C1. For both adapters: once the vendor has reported an address (the response has
  status 200, decodes, carries no in-band error for the simple adapter, and its IP parses)
  and the caller supplied a requested IP, a reported address that differs from the
  requested one makes \<^verbatim>\<open>Update\<close> return the adapter's mismatch error (the wrapped
  \<^verbatim>\<open>ErrIPReceivedMismatch\<close> for Namecheap, the message "updated IP address ... is not the
  IP address ... sent for update" for DigitalOcean); and \<^verbatim>\<open>Update\<close> never returns a
  success whose address differs from the requested one.
\<close>

theorem update_success_requires_match:
  "(namecheap_Update env n ctx client ip w = (res, w')
      \<and> calls w' = calls w @ [request]
      \<and> client request (vendor w) = (Inr response, s')
      \<and> StatusCode response = 200
      \<and> xml_Decode env (response.Body response) = Inr parsedXML
      \<and> Error (Errors parsedXML) = ''''
      \<and> net_ParseIP env (IP parsedXML) = newIP \<and> newIP \<noteq> None
      \<and> ip \<noteq> None \<and> \<not> IP_Equal env ip newIP
     \<longrightarrow> res = Inl (Errorf ''%w: %s'' [ArgErr (Sentinel ErrIPReceivedMismatch),
                                          ArgStr (IP_String env newIP)]))
   \<and> (namecheap_Update env n ctx client ip w = (Inr x, v) \<and> ip \<noteq> None
     \<longrightarrow> IP_Equal env ip x)
   \<and> (digitalocean_getRecordID env d ctx
          (if IP_To4 env ip_do = None then constants_AAAA else constants_A) client_do w_do
        = (Inr recordID, w_lookup)
      \<and> digitalocean_Update env d ctx client_do ip_do w_do = (res_do, w_mutation)
      \<and> calls w_mutation = calls w_lookup @ [request_do]
      \<and> client_do request_do (vendor w_lookup) = (Inr response_do, s_do)
      \<and> StatusCode response_do = 200
      \<and> json_Decode_responseData env (response.Body response_do) = Inr responseData
      \<and> net_ParseIP env (Data (DomainRecord responseData)) = newIP_do \<and> newIP_do \<noteq> None
      \<and> \<not> IP_Equal env newIP_do ip_do
     \<longrightarrow> res_do = Inl (Errorf
                         ''updated IP address %s is not the IP address %s sent for update''
                         [ArgIP newIP_do, ArgIP ip_do]))
   \<and> (digitalocean_Update env d ctx client_do ip_do w_do = (Inr x_do, v_do)
     \<longrightarrow> IP_Equal env x_do ip_do)"
proof (intro conjI impI)
  assume h: "namecheap_Update env n ctx client ip w = (res, w')
      \<and> calls w' = calls w @ [request]
      \<and> client request (vendor w) = (Inr response, s')
      \<and> StatusCode response = 200
      \<and> xml_Decode env (response.Body response) = Inr parsedXML
      \<and> Error (Errors parsedXML) = ''''
      \<and> net_ParseIP env (IP parsedXML) = newIP \<and> newIP \<noteq> None
      \<and> ip \<noteq> None \<and> \<not> IP_Equal env ip newIP"
  then have "res = namecheap_verdict env ip response"
    by (intro namecheap_Update_run(1) [of env n ctx client ip w res w' request response s'])
       simp_all
  with h show "res = Inl (Errorf ''%w: %s'' [ArgErr (Sentinel ErrIPReceivedMismatch),
                                             ArgStr (IP_String env newIP)])"
    by (auto simp: namecheap_verdict_def)
next
  assume "namecheap_Update env n ctx client ip w = (Inr x, v) \<and> ip \<noteq> None"
  then show "IP_Equal env ip x"
    using namecheap_Update_Inr [of env n ctx client ip w x v] namecheap_verdict_Inr
    by blast
next
  assume h: "digitalocean_getRecordID env d ctx
          (if IP_To4 env ip_do = None then constants_AAAA else constants_A) client_do w_do
        = (Inr recordID, w_lookup)
      \<and> digitalocean_Update env d ctx client_do ip_do w_do = (res_do, w_mutation)
      \<and> calls w_mutation = calls w_lookup @ [request_do]
      \<and> client_do request_do (vendor w_lookup) = (Inr response_do, s_do)
      \<and> StatusCode response_do = 200
      \<and> json_Decode_responseData env (response.Body response_do) = Inr responseData
      \<and> net_ParseIP env (Data (DomainRecord responseData)) = newIP_do \<and> newIP_do \<noteq> None
      \<and> \<not> IP_Equal env newIP_do ip_do"
  then have "res_do = digitalocean_mutation_verdict env ip_do response_do"
    by (intro digitalocean_Update_run(1) [of env d ctx ip_do client_do w_do recordID w_lookup
          res_do w_mutation request_do response_do s_do])
       (simp_all add: digitalocean_recordType_def)
  with h show "res_do = Inl (Errorf
                         ''updated IP address %s is not the IP address %s sent for update''
                         [ArgIP newIP_do, ArgIP ip_do])"
    by (auto simp: digitalocean_mutation_verdict_def)
next
  assume "digitalocean_Update env d ctx client_do ip_do w_do = (Inr x_do, v_do)"
  from digitalocean_Update_success [OF this]
  obtain response where "digitalocean_mutation_verdict env ip_do response = Inr x_do" ..
  then show "IP_Equal env x_do ip_do"
    by (rule digitalocean_mutation_verdict_Inr)
qed

theorem update_success_requires_match_witness:
  "fst (namecheap_Update stub_extern (stub_namecheap False) ()
          (stub_vendor (ok body_ip_1) (ok body_ip_1)) (stub_IPv4 203 0 113 5) start)
     = Inl (Errorf ''%w: %s'' [ArgErr (Sentinel ErrIPReceivedMismatch), ArgStr ''198.51.100.1''])
   \<and> namecheap_Update stub_extern (stub_namecheap False) ()
          (stub_vendor (ok body_ip_5) (ok body_ip_5)) (stub_IPv4 203 0 113 5) start
     = (Inr (stub_IPv4 203 0 113 5),
        \<lparr>vendor = Suc 0,
         calls = [namecheap_request stub_extern (stub_namecheap False) ()
                    (stub_IPv4 203 0 113 5)]\<rparr>)
   \<and> IP_Equal stub_extern (stub_IPv4 203 0 113 5) (stub_IPv4 203 0 113 5)
   \<and> fst (digitalocean_Update stub_extern stub_digitalOcean ()
          (stub_vendor (ok body_records_42) (ok body_record_1)) (stub_IPv4 198 51 100 9) start)
     = Inl (Errorf ''updated IP address %s is not the IP address %s sent for update''
              [ArgIP (stub_IPv4 198 51 100 1), ArgIP (stub_IPv4 198 51 100 9)])
   \<and> digitalocean_Update stub_extern stub_digitalOcean ()
          (stub_vendor (ok body_records_42) (ok body_record_9)) (stub_IPv4 198 51 100 9) start
     = (Inr (stub_IPv4 198 51 100 9),
        \<lparr>vendor = Suc (Suc 0),
         calls = [digitalocean_lookup_request stub_extern stub_digitalOcean () ''A'',
                  digitalocean_mutation_request stub_extern stub_digitalOcean () 42
                    (''type=A name=api data='' @ stub_String (stub_IPv4 198 51 100 9))]\<rparr>)
   \<and> IP_Equal stub_extern (stub_IPv4 198 51 100 9) (stub_IPv4 198 51 100 9)"
proof -
  let ?five = "stub_IPv4 203 0 113 5" and ?nine = "stub_IPv4 198 51 100 9"
  let ?one = "stub_IPv4 198 51 100 1"
  let ?n = "stub_namecheap False"
  let ?sent = "namecheap_request stub_extern ?n () ?five"
  let ?lookup = "digitalocean_lookup_request stub_extern stub_digitalOcean () ''A''"
  let ?mutation = "digitalocean_mutation_request stub_extern stub_digitalOcean () 42
                     (''type=A name=api data='' @ stub_String ?nine)"
  have nc_hyp:
    "namecheap_Update stub_extern ?n () (stub_vendor (ok body_ip_1) (ok body_ip_1)) ?five start
       = (fst (namecheap_Update stub_extern ?n () (stub_vendor (ok body_ip_1) (ok body_ip_1))
                 ?five start),
          \<lparr>vendor = Suc 0, calls = [?sent]\<rparr>)
     \<and> calls \<lparr>vendor = Suc 0, calls = [?sent]\<rparr> = calls start @ [?sent]
     \<and> stub_vendor (ok body_ip_1) (ok body_ip_1) ?sent (vendor start)
         = (Inr \<lparr>StatusCode = 200, response.Body = body_ip_1\<rparr>, Suc 0)
     \<and> StatusCode \<lparr>StatusCode = 200, response.Body = body_ip_1\<rparr> = 200
     \<and> xml_Decode stub_extern (response.Body \<lparr>StatusCode = 200, response.Body = body_ip_1\<rparr>)
         = Inr \<lparr>Errors = \<lparr>Error = ''''\<rparr>, IP = ''198.51.100.1''\<rparr>
     \<and> Error (Errors \<lparr>Errors = \<lparr>Error = ''''\<rparr>, IP = ''198.51.100.1''\<rparr>) = ''''
     \<and> net_ParseIP stub_extern (IP \<lparr>Errors = \<lparr>Error = ''''\<rparr>, IP = ''198.51.100.1''\<rparr>) = ?one
     \<and> ?one \<noteq> None \<and> ?five \<noteq> None \<and> \<not> IP_Equal stub_extern ?five ?one"
    by (simp add: stub_namecheap_Update stub_vendor_GET ok_def start_def stub_xml
        stub_addresses)
  note nc_mismatch = update_success_requires_match [THEN conjunct1, THEN mp, OF nc_hyp]
  have nc_run:
    "namecheap_Update stub_extern ?n () (stub_vendor (ok body_ip_5) (ok body_ip_5)) ?five start
       = (Inr ?five, \<lparr>vendor = Suc 0, calls = [?sent]\<rparr>)
     \<and> ?five \<noteq> None"
    by (simp add: stub_namecheap_Update ok_def namecheap_verdict_def stub_xml
        stub_addresses start_def)
  note nc_equal = update_success_requires_match
      [THEN conjunct2, THEN conjunct1, THEN mp, OF nc_run]
  have do_hyp:
    "digitalocean_getRecordID stub_extern stub_digitalOcean ()
         (if IP_To4 stub_extern ?nine = None then constants_AAAA else constants_A)
         (stub_vendor (ok body_records_42) (ok body_record_1)) start
       = (Inr 42, \<lparr>vendor = Suc 0, calls = [?lookup]\<rparr>)
     \<and> digitalocean_Update stub_extern stub_digitalOcean ()
         (stub_vendor (ok body_records_42) (ok body_record_1)) ?nine start
       = (fst (digitalocean_Update stub_extern stub_digitalOcean ()
                 (stub_vendor (ok body_records_42) (ok body_record_1)) ?nine start),
          \<lparr>vendor = Suc (Suc 0), calls = [?lookup, ?mutation]\<rparr>)
     \<and> calls \<lparr>vendor = Suc (Suc 0), calls = [?lookup, ?mutation]\<rparr>
         = calls \<lparr>vendor = Suc 0, calls = [?lookup]\<rparr> @ [?mutation]
     \<and> stub_vendor (ok body_records_42) (ok body_record_1) ?mutation
           (vendor \<lparr>vendor = Suc 0, calls = [?lookup]\<rparr>)
         = (Inr \<lparr>StatusCode = 200, response.Body = body_record_1\<rparr>, Suc (Suc 0))
     \<and> StatusCode \<lparr>StatusCode = 200, response.Body = body_record_1\<rparr> = 200
     \<and> json_Decode_responseData stub_extern
           (response.Body \<lparr>StatusCode = 200, response.Body = body_record_1\<rparr>)
         = Inr \<lparr>DomainRecord = \<lparr>responseData_DomainRecord.Data = ''198.51.100.1''\<rparr>\<rparr>
     \<and> net_ParseIP stub_extern
           (Data (DomainRecord
              \<lparr>DomainRecord = \<lparr>responseData_DomainRecord.Data = ''198.51.100.1''\<rparr>\<rparr>)) = ?one
     \<and> ?one \<noteq> None \<and> \<not> IP_Equal stub_extern ?one ?nine"
    by (simp add: stub_lookup_42 stub_digitalocean_Update stub_vendor_PUT stub_addresses)
       (simp add: ok_def stub_decode_record stub_addresses stub_IPv4_def)
  note do_mismatch = update_success_requires_match
      [THEN conjunct2, THEN conjunct2, THEN conjunct1, THEN mp, OF do_hyp]
  have do_run:
    "digitalocean_Update stub_extern stub_digitalOcean ()
         (stub_vendor (ok body_records_42) (ok body_record_9)) ?nine start
       = (Inr ?nine, \<lparr>vendor = Suc (Suc 0), calls = [?lookup, ?mutation]\<rparr>)"
    by (simp add: stub_digitalocean_Update)
       (simp add: ok_def digitalocean_mutation_verdict_def stub_decode_record stub_addresses)
  note do_equal = update_success_requires_match
      [THEN conjunct2, THEN conjunct2, THEN conjunct2, THEN mp, OF do_run]
  from nc_mismatch nc_run nc_equal do_mismatch do_run do_equal show ?thesis
    by (simp add: stub_String_addresses)
qed

text \<open>
  Claim C2, as the code has it. In the simple adapter, once the response has status 200,
  decodes, carries no in-band error and its IP parses, the mismatch failure occurs exactly
  when the IP argument of the caller is not nil and differs from the reported address,
  whatever the \<^verbatim>\<open>useProviderIP\<close> flag; otherwise \<^verbatim>\<open>Update\<close> succeeds with the reported
  address. The flag only decides whether the request carries the \<^verbatim>\<open>ip\<close> query parameter.
\<close>

theorem mismatch_follows_nil_check_not_flag:
  assumes "namecheap_Update env n ctx client ip w = (res, w')"
      and "calls w' = calls w @ [request]"
      and "client request (vendor w) = (Inr response, s')"
      and "StatusCode response = 200"
      and "xml_Decode env (response.Body response) = Inr parsedXML"
      and "Error (Errors parsedXML) = ''''"
      and "net_ParseIP env (IP parsedXML) = newIP"
      and "newIP \<noteq> None"
  shows "(res = Inl (Errorf ''%w: %s'' [ArgErr (Sentinel ErrIPReceivedMismatch),
                                         ArgStr (IP_String env newIP)]))
           = (ip \<noteq> None \<and> \<not> IP_Equal env ip newIP)
       \<and> (res = Inr newIP) = (ip = None \<or> IP_Equal env ip newIP)
       \<and> RawQuery (URL request) ''ip''
           = (if useProviderIP n then None else Some [IP_String env ip])"
proof -
  note run = namecheap_Update_run [OF assms(1-3)]
  have query: "RawQuery (URL request) ''ip''
           = (if useProviderIP n then None else Some [IP_String env ip])"
    unfolding run(3) by (simp add: namecheap_request_def req_defs Let_def)
  from run(1) assms(4-8)
  have "res = (if ip \<noteq> None \<and> \<not> IP_Equal env ip newIP
               then Inl (Errorf ''%w: %s'' [ArgErr (Sentinel ErrIPReceivedMismatch),
                                            ArgStr (IP_String env newIP)])
               else Inr newIP)"
    by (simp add: namecheap_verdict_def)
  with query show ?thesis by auto
qed

text \<open>
  Claim C2 as stated fails: with \<^verbatim>\<open>useProviderIP\<close> enabled, a caller that passes
  \<^verbatim>\<open>203.0.113.5\<close> while the vendor reports \<^verbatim>\<open>198.51.100.1\<close> (status 200, no in-band error)
  gets the mismatch error, not a success with the reported address.
\<close>

theorem flag_does_not_suppress_mismatch:
  "useProviderIP (stub_namecheap True)
   \<and> namecheap_Update stub_extern (stub_namecheap True) ()
         (stub_vendor (ok body_ip_1) (ok body_ip_1)) (stub_IPv4 203 0 113 5) start
     = (Inl (Errorf ''%w: %s'' [ArgErr (Sentinel ErrIPReceivedMismatch),
                                 ArgStr ''198.51.100.1'']),
        \<lparr>vendor = Suc 0,
         calls = [namecheap_request stub_extern (stub_namecheap True) ()
                    (stub_IPv4 203 0 113 5)]\<rparr>)"
  by (simp add: stub_namecheap_Update ok_def namecheap_verdict_def stub_xml stub_addresses
      stub_String_addresses start_def stub_namecheap_def)

theorem mismatch_follows_nil_check_not_flag_witness:
  "fst (namecheap_Update stub_extern (stub_namecheap True) ()
          (stub_vendor (ok body_ip_1) (ok body_ip_1)) None start)
     = Inr (stub_IPv4 198 51 100 1)
   \<and> RawQuery (URL (namecheap_request stub_extern (stub_namecheap True) () None)) ''ip'' = None
   \<and> fst (namecheap_Update stub_extern (stub_namecheap False) ()
          (stub_vendor (ok body_ip_1) (ok body_ip_1)) (stub_IPv4 203 0 113 5) start)
     = Inl (Errorf ''%w: %s'' [ArgErr (Sentinel ErrIPReceivedMismatch), ArgStr ''198.51.100.1''])
   \<and> RawQuery (URL (namecheap_request stub_extern (stub_namecheap False) ()
                       (stub_IPv4 203 0 113 5))) ''ip''
     = Some [''203.0.113.5'']"
proof -
  let ?one = "stub_IPv4 198 51 100 1" and ?five = "stub_IPv4 203 0 113 5"
  let ?answer = "\<lparr>StatusCode = 200, response.Body = body_ip_1\<rparr>"
  let ?parsed = "\<lparr>Errors = \<lparr>Error = ''''\<rparr>, IP = ''198.51.100.1''\<rparr>"
  have status: "StatusCode ?answer = 200"
    by simp
  have decoded: "xml_Decode stub_extern (response.Body ?answer) = Inr ?parsed"
    by (simp add: stub_xml)
  have empty: "Error (Errors ?parsed) = ''''"
    by simp
  have parsed: "net_ParseIP stub_extern (IP ?parsed) = ?one"
    by (simp add: stub_addresses)
  have valid: "?one \<noteq> None"
    by (simp add: stub_IPv4_def)
  note inferred = mismatch_follows_nil_check_not_flag
      [OF stub_namecheap_run [where n = "stub_namecheap True" and ip = None]
          status decoded empty parsed valid]
  note explicit = mismatch_follows_nil_check_not_flag
      [OF stub_namecheap_run [where n = "stub_namecheap False" and ip = ?five]
          status decoded empty parsed valid]
  have flags: "useProviderIP (stub_namecheap True)" "\<not> useProviderIP (stub_namecheap False)"
    by (simp_all add: stub_namecheap_def)
  from inferred explicit flags show ?thesis
    by (simp add: ok_def stub_addresses stub_String_addresses)
qed

section \<open>HTTP status\<close>

text \<open>
  Claim C7, as the code has it. In each of the three HTTP exchanges (the single call of
  the simple adapter, the lookup and the mutation of the two-step adapter), once the client
  has returned a response, the step fails with the bad-HTTP-status error, carrying the
  status code and the single-line snapshot of the body, exactly when the status is not 200.
\<close>

theorem bad_status_exactly_when_not_200:
  "(namecheap_Update env n ctx client ip w = (res, w')
      \<and> calls w' = calls w @ [request]
      \<and> client request (vendor w) = (Inr response, s')
     \<longrightarrow> (res = Inl (Errorf ''%w: %d: %s''
                        [ArgErr (Sentinel ErrBadHTTPStatus), ArgInt (StatusCode response),
                         ArgStr (utils_BodyToSingleLine env (response.Body response))]))
           = (StatusCode response \<noteq> 200))
   \<and> (digitalocean_getRecordID env d ctx recordType client_id w_id = (res_id, w_id')
      \<and> calls w_id' = calls w_id @ [request_id]
      \<and> client_id request_id (vendor w_id) = (Inr response_id, s_id)
     \<longrightarrow> (res_id = Inl (Errorf ''%w: %d: %s''
                        [ArgErr (Sentinel ErrBadHTTPStatus), ArgInt (StatusCode response_id),
                         ArgStr (utils_BodyToSingleLine env (response.Body response_id))]))
           = (StatusCode response_id \<noteq> 200))
   \<and> (digitalocean_getRecordID env d ctx
          (if IP_To4 env ip_do = None then constants_AAAA else constants_A) client_do w_do
        = (Inr recordID, w_lookup)
      \<and> digitalocean_Update env d ctx client_do ip_do w_do = (res_do, w_mutation)
      \<and> calls w_mutation = calls w_lookup @ [request_do]
      \<and> client_do request_do (vendor w_lookup) = (Inr response_do, s_do)
     \<longrightarrow> (res_do = Inl (Errorf ''%w: %d: %s''
                        [ArgErr (Sentinel ErrBadHTTPStatus), ArgInt (StatusCode response_do),
                         ArgStr (utils_BodyToSingleLine env (response.Body response_do))]))
           = (StatusCode response_do \<noteq> 200))"
proof (intro conjI impI)
  assume "namecheap_Update env n ctx client ip w = (res, w')
      \<and> calls w' = calls w @ [request]
      \<and> client request (vendor w) = (Inr response, s')"
  then have "res = namecheap_verdict env ip response"
    by (intro namecheap_Update_run(1) [of env n ctx client ip w res w' request response s'])
       simp_all
  then show "(res = Inl (Errorf ''%w: %d: %s''
                        [ArgErr (Sentinel ErrBadHTTPStatus), ArgInt (StatusCode response),
                         ArgStr (utils_BodyToSingleLine env (response.Body response))]))
           = (StatusCode response \<noteq> 200)"
    by (auto simp: namecheap_verdict_def split: sum.splits)
next
  assume "digitalocean_getRecordID env d ctx recordType client_id w_id = (res_id, w_id')
      \<and> calls w_id' = calls w_id @ [request_id]
      \<and> client_id request_id (vendor w_id) = (Inr response_id, s_id)"
  then have "res_id = digitalocean_lookup_verdict env response_id"
    by (intro digitalocean_getRecordID_run(1) [of env d ctx recordType client_id w_id res_id
          w_id' request_id response_id s_id])
       simp_all
  then show "(res_id = Inl (Errorf ''%w: %d: %s''
                        [ArgErr (Sentinel ErrBadHTTPStatus), ArgInt (StatusCode response_id),
                         ArgStr (utils_BodyToSingleLine env (response.Body response_id))]))
           = (StatusCode response_id \<noteq> 200)"
    by (auto simp: digitalocean_lookup_verdict_def split: sum.splits)
next
  assume "digitalocean_getRecordID env d ctx
          (if IP_To4 env ip_do = None then constants_AAAA else constants_A) client_do w_do
        = (Inr recordID, w_lookup)
      \<and> digitalocean_Update env d ctx client_do ip_do w_do = (res_do, w_mutation)
      \<and> calls w_mutation = calls w_lookup @ [request_do]
      \<and> client_do request_do (vendor w_lookup) = (Inr response_do, s_do)"
  then have "res_do = digitalocean_mutation_verdict env ip_do response_do"
    by (intro digitalocean_Update_run(1) [of env d ctx ip_do client_do w_do recordID w_lookup
          res_do w_mutation request_do response_do s_do])
       (simp_all add: digitalocean_recordType_def)
  then show "(res_do = Inl (Errorf ''%w: %d: %s''
                        [ArgErr (Sentinel ErrBadHTTPStatus), ArgInt (StatusCode response_do),
                         ArgStr (utils_BodyToSingleLine env (response.Body response_do))]))
           = (StatusCode response_do \<noteq> 200)"
    by (auto simp: digitalocean_mutation_verdict_def split: sum.splits)
qed

text \<open>
  Claim C7 as stated fails: the status 201 is a success (2xx) status, and by itself it
  makes \<^verbatim>\<open>Update\<close> of the simple adapter fail with the bad-HTTP-status error, although the
  body reports exactly the requested address.
\<close>

theorem status_201_is_a_bad_status:
  "(200 :: int) \<le> 201 \<and> (201 :: int) < 300
   \<and> namecheap_Update stub_extern (stub_namecheap False) ()
         (stub_vendor (Inr \<lparr>StatusCode = 201, response.Body = body_ip_5\<rparr>) (ok body_ip_5))
         (stub_IPv4 203 0 113 5) start
     = (Inl (Errorf ''%w: %d: %s''
               [ArgErr (Sentinel ErrBadHTTPStatus), ArgInt 201, ArgStr body_ip_5]),
        \<lparr>vendor = Suc 0,
         calls = [namecheap_request stub_extern (stub_namecheap False) ()
                    (stub_IPv4 203 0 113 5)]\<rparr>)"
  by (simp add: stub_namecheap_Update namecheap_verdict_def start_def)

theorem bad_status_exactly_when_not_200_witness:
  "fst (namecheap_Update stub_extern (stub_namecheap False) ()
          (stub_vendor (Inr \<lparr>StatusCode = 500, response.Body = body_ip_5\<rparr>) (ok body_ip_5))
          (stub_IPv4 203 0 113 5) start)
     = Inl (Errorf ''%w: %d: %s''
              [ArgErr (Sentinel ErrBadHTTPStatus), ArgInt 500, ArgStr body_ip_5])
   \<and> fst (digitalocean_getRecordID stub_extern stub_digitalOcean () ''A''
          (stub_vendor (Inr \<lparr>StatusCode = 404, response.Body = body_records_none\<rparr>)
             (ok body_record_9)) start)
     = Inl (Errorf ''%w: %d: %s''
              [ArgErr (Sentinel ErrBadHTTPStatus), ArgInt 404, ArgStr body_records_none])
   \<and> fst (digitalocean_Update stub_extern stub_digitalOcean ()
          (stub_vendor (ok body_records_42)
             (Inr \<lparr>StatusCode = 500, response.Body = body_record_9\<rparr>))
          (stub_IPv4 198 51 100 9) start)
     = Inl (Errorf ''%w: %d: %s''
              [ArgErr (Sentinel ErrBadHTTPStatus), ArgInt 500, ArgStr body_record_9])"
proof -
  let ?five = "stub_IPv4 203 0 113 5" and ?nine = "stub_IPv4 198 51 100 9"
  let ?n = "stub_namecheap False"
  let ?sent = "namecheap_request stub_extern ?n () ?five"
  let ?lookup = "digitalocean_lookup_request stub_extern stub_digitalOcean () ''A''"
  let ?mutation = "digitalocean_mutation_request stub_extern stub_digitalOcean () 42
                     (''type=A name=api data='' @ stub_String ?nine)"
  let ?nc_client = "stub_vendor (Inr \<lparr>StatusCode = 500, response.Body = body_ip_5\<rparr>)
                      (ok body_ip_5)"
  let ?id_client = "stub_vendor (Inr \<lparr>StatusCode = 404, response.Body = body_records_none\<rparr>)
                      (ok body_record_9)"
  let ?do_client = "stub_vendor (ok body_records_42)
                      (Inr \<lparr>StatusCode = 500, response.Body = body_record_9\<rparr>)"
  have nc_hyp:
    "namecheap_Update stub_extern ?n () ?nc_client ?five start
       = (fst (namecheap_Update stub_extern ?n () ?nc_client ?five start),
          \<lparr>vendor = Suc 0, calls = [?sent]\<rparr>)
     \<and> calls \<lparr>vendor = Suc 0, calls = [?sent]\<rparr> = calls start @ [?sent]
     \<and> ?nc_client ?sent (vendor start)
         = (Inr \<lparr>StatusCode = 500, response.Body = body_ip_5\<rparr>, Suc 0)"
    by (simp add: stub_namecheap_Update stub_vendor_GET start_def)
  note nc = bad_status_exactly_when_not_200 [THEN conjunct1, THEN mp, OF nc_hyp]
  have id_hyp:
    "digitalocean_getRecordID stub_extern stub_digitalOcean () ''A'' ?id_client start
       = (fst (digitalocean_getRecordID stub_extern stub_digitalOcean () ''A'' ?id_client start),
          \<lparr>vendor = Suc 0, calls = [?lookup]\<rparr>)
     \<and> calls \<lparr>vendor = Suc 0, calls = [?lookup]\<rparr> = calls start @ [?lookup]
     \<and> ?id_client ?lookup (vendor start)
         = (Inr \<lparr>StatusCode = 404, response.Body = body_records_none\<rparr>, Suc 0)"
    by (simp add: stub_getRecordID stub_vendor_GET start_def)
  note id = bad_status_exactly_when_not_200
      [THEN conjunct2, THEN conjunct1, THEN mp, OF id_hyp]
  have do_hyp:
    "digitalocean_getRecordID stub_extern stub_digitalOcean ()
         (if IP_To4 stub_extern ?nine = None then constants_AAAA else constants_A)
         ?do_client start
       = (Inr 42, \<lparr>vendor = Suc 0, calls = [?lookup]\<rparr>)
     \<and> digitalocean_Update stub_extern stub_digitalOcean () ?do_client ?nine start
       = (fst (digitalocean_Update stub_extern stub_digitalOcean () ?do_client ?nine start),
          \<lparr>vendor = Suc (Suc 0), calls = [?lookup, ?mutation]\<rparr>)
     \<and> calls \<lparr>vendor = Suc (Suc 0), calls = [?lookup, ?mutation]\<rparr>
         = calls \<lparr>vendor = Suc 0, calls = [?lookup]\<rparr> @ [?mutation]
     \<and> ?do_client ?mutation (vendor \<lparr>vendor = Suc 0, calls = [?lookup]\<rparr>)
         = (Inr \<lparr>StatusCode = 500, response.Body = body_record_9\<rparr>, Suc (Suc 0))"
    by (simp add: stub_lookup_42 stub_digitalocean_Update stub_vendor_PUT stub_addresses)
  note do = bad_status_exactly_when_not_200
      [THEN conjunct2, THEN conjunct2, THEN mp, OF do_hyp]
  from nc id do show ?thesis by simp
qed

section \<open>What the two requests of the two-step adapter carry\<close>

lemma digitalocean_lookup_request_name:
  "RawQuery (URL (digitalocean_lookup_request env d ctx recordType)) ''name''
     = Some [utils_BuildDomainName env (digitalOcean.host d) (digitalOcean.domain d)]"
  by (simp add: digitalocean_lookup_request_def digitalocean_BuildDomainName_def req_defs)

lemma digitalocean_mutation_request_body:
  "request.Body (digitalocean_mutation_request env d ctx recordID buffer) = Some buffer"
  "RawQuery (URL (digitalocean_mutation_request env d ctx recordID buffer)) = Map.empty"
  by (simp_all add: digitalocean_mutation_request_def req_defs)

text \<open>
  Claim C10. Every \<^verbatim>\<open>Update\<close> of the two-step adapter hands the client no request, or
  the lookup alone, or the lookup followed by the mutation. The lookup is a \<^verbatim>\<open>GET\<close> whose
  \<^verbatim>\<open>name\<close> query parameter is the fully-qualified name, \<^verbatim>\<open>BuildDomainName\<close> of host and
  domain. The mutation is a \<^verbatim>\<open>PUT\<close> with no query whose body is the encoding of the request
  data whose \<^verbatim>\<open>name\<close> field is the bare host of the adapter.
\<close>

theorem lookup_by_full_name_mutation_by_host:
  assumes "digitalocean_Update env d ctx client ip w = (res, w')"
  shows "calls w' = calls w
       \<or> (\<exists>lookup. calls w' = calls w @ [lookup]
            \<and> Method lookup = ''GET''
            \<and> RawQuery (URL lookup) ''name''
                = Some [utils_BuildDomainName env (digitalOcean.host d) (digitalOcean.domain d)])
       \<or> (\<exists>lookup mutation buffer. calls w' = calls w @ [lookup, mutation]
            \<and> Method lookup = ''GET''
            \<and> RawQuery (URL lookup) ''name''
                = Some [utils_BuildDomainName env (digitalOcean.host d) (digitalOcean.domain d)]
            \<and> Method mutation = ''PUT''
            \<and> RawQuery (URL mutation) = Map.empty
            \<and> request.Body mutation = Some buffer
            \<and> json_Encode env
                  \<lparr>Type = (if IP_To4 env ip = None then constants_AAAA else constants_A),
                   Name = digitalOcean.host d,
                   requestData.Data = IP_String env ip\<rparr>
                = Inr buffer)"
proof (cases "digitalocean_getRecordID env d ctx (digitalocean_recordType env ip) client w")
  case (Pair r w1)
  let ?lookup = "digitalocean_lookup_request env d ctx (digitalocean_recordType env ip)"
  show ?thesis
  proof (cases r)
    case (Inl err)
    with Pair have failed:
      "digitalocean_getRecordID env d ctx (digitalocean_recordType env ip) client w
         = (Inl err, w1)"
      by simp
    from digitalocean_Update_Inl [OF failed] assms have "w' = w1"
      by simp
    with digitalocean_getRecordID_calls [OF failed]
    have "calls w' = calls w \<or> calls w' = calls w @ [?lookup]"
      by simp
    then show ?thesis
      using digitalocean_lookup_request_name [of env d ctx "digitalocean_recordType env ip"]
      by auto
  next
    case (Inr recordID)
    with Pair have found:
      "digitalocean_getRecordID env d ctx (digitalocean_recordType env ip) client w
         = (Inr recordID, w1)"
      by simp
    note sent = digitalocean_getRecordID_Inr_calls [OF found]
    have data: "digitalocean_requestData env d ip
        = \<lparr>Type = (if IP_To4 env ip = None then constants_AAAA else constants_A),
           Name = digitalOcean.host d,
           requestData.Data = IP_String env ip\<rparr>"
      by (simp add: digitalocean_requestData_def digitalocean_recordType_def)
    show ?thesis
    proof (cases "json_Encode env (digitalocean_requestData env d ip)")
      case (Inl err)
      with assms have "w' = w1"
        unfolding digitalocean_Update_Inr [OF found] by simp
      with sent have "calls w' = calls w @ [?lookup]"
        by simp
      then show ?thesis
        using digitalocean_lookup_request_name [of env d ctx "digitalocean_recordType env ip"]
        by auto
    next
      case (Inr buffer)
      let ?mutation = "digitalocean_mutation_request env d ctx recordID buffer"
      from Inr assms
      have "calls w' = calls w1 \<or> calls w' = calls w1 @ [?mutation]"
        unfolding digitalocean_Update_Inr [OF found]
        by (auto split: option.splits)
      with sent
      have "calls w' = calls w @ [?lookup] \<or> calls w' = calls w @ [?lookup, ?mutation]"
        by auto
      moreover have "json_Encode env
                  \<lparr>Type = (if IP_To4 env ip = None then constants_AAAA else constants_A),
                   Name = digitalOcean.host d,
                   requestData.Data = IP_String env ip\<rparr>
                = Inr buffer"
        using Inr data by simp
      ultimately show ?thesis
        using digitalocean_lookup_request_name [of env d ctx "digitalocean_recordType env ip"]
          digitalocean_mutation_request_body [of env d ctx recordID buffer]
          digitalocean_lookup_request_Method [of env d ctx "digitalocean_recordType env ip"]
          digitalocean_mutation_request_Method [of env d ctx recordID buffer]
        by blast
    qed
  qed
qed

theorem lookup_by_full_name_mutation_by_host_witness:
  "map Method (calls (snd (digitalocean_Update stub_extern stub_digitalOcean ()
       (stub_vendor (ok body_records_42) (ok body_record_9)) (stub_IPv4 198 51 100 9) start)))
     = [''GET'', ''PUT'']
   \<and> map (\<lambda>request. RawQuery (URL request) ''name'')
        (calls (snd (digitalocean_Update stub_extern stub_digitalOcean ()
           (stub_vendor (ok body_records_42) (ok body_record_9)) (stub_IPv4 198 51 100 9) start)))
     = [Some [''api.example.org''], None]
   \<and> map request.Body
        (calls (snd (digitalocean_Update stub_extern stub_digitalOcean ()
           (stub_vendor (ok body_records_42) (ok body_record_9)) (stub_IPv4 198 51 100 9) start)))
     = [None, Some ''type=A name=api data=198.51.100.9'']"
proof -
  let ?nine = "stub_IPv4 198 51 100 9"
  let ?lookup = "digitalocean_lookup_request stub_extern stub_digitalOcean () ''A''"
  let ?mutation = "digitalocean_mutation_request stub_extern stub_digitalOcean () 42
                     (''type=A name=api data='' @ stub_String ?nine)"
  have run: "digitalocean_Update stub_extern stub_digitalOcean ()
         (stub_vendor (ok body_records_42) (ok body_record_9)) ?nine start
       = (Inr ?nine, \<lparr>vendor = Suc (Suc 0), calls = [?lookup, ?mutation]\<rparr>)"
    by (simp add: stub_digitalocean_Update)
       (simp add: ok_def digitalocean_mutation_verdict_def stub_decode_record stub_addresses)
  have name: "utils_BuildDomainName stub_extern (digitalOcean.host stub_digitalOcean)
                (digitalOcean.domain stub_digitalOcean) = ''api.example.org''"
    by (simp add: stub_extern_def stub_digitalOcean_def)
  have lookup_body: "request.Body ?lookup = None"
    by (simp add: digitalocean_lookup_request_def req_defs)
  from lookup_by_full_name_mutation_by_host [OF run]
  have "RawQuery (URL ?lookup) ''name'' = Some [''api.example.org'']
      \<and> Method ?lookup = ''GET'' \<and> Method ?mutation = ''PUT''
      \<and> RawQuery (URL ?mutation) = Map.empty
      \<and> request.Body ?mutation = Some (''type=A name=api data='' @ stub_String ?nine)"
    by (auto simp: start_def name digitalocean_mutation_request_body)
  with run lookup_body show ?thesis
    by (simp add: stub_String_addresses)
qed

end
